theory Spec2Isabelle
  imports Main "HOL-Library.Word"
begin

section \<open>Python values the script works with\<close>

text \<open>
  The script \<^verbatim>\<open>a.py\<close> is a flat sequence of HTTP calls and assertions. Its
  exceptions are values: every \<^verbatim>\<open>raise\<close>, failed \<^verbatim>\<open>assert\<close> and \<^verbatim>\<open>exit\<close> is
  a branch that returns \<open>Inl\<close> of one of these. The string is the exception's message.

  The script has two handlers, \<^verbatim>\<open>except requests.exceptions.RequestException\<close> and
  \<^verbatim>\<open>except json.JSONDecodeError\<close>, so what matters of an exception is which of the two
  classes it belongs to. \<open>RequestException\<close> is that class and its subclasses, but for
  \<^verbatim>\<open>requests.exceptions.JSONDecodeError\<close>, which belongs to both classes and is
  \<open>RequestsJSONDecodeError\<close> here; \<open>JSONDecodeError\<close> is \<^verbatim>\<open>json.JSONDecodeError\<close> itself.
  The other constructors belong to neither class: \<open>ValueError\<close> is a \<^verbatim>\<open>ValueError\<close> that
  is no \<^verbatim>\<open>JSONDecodeError\<close>, and \<open>OtherException\<close> is an exception of any further class,
  with the class's name.
\<close>

datatype exn =
    RequestException string
  | RequestsJSONDecodeError string
  | JSONDecodeError string
  | TypeError string
  | ValueError string
  | RecursionError string
  | UnicodeEncodeError string
  | AttributeError string
  | AssertionError string
  | SystemExit string
  | OtherException string string

fun is_RequestException :: "exn \<Rightarrow> bool" where
  "is_RequestException (RequestException m) = True"
| "is_RequestException (RequestsJSONDecodeError m) = True"
| "is_RequestException e = False"

fun is_JSONDecodeError :: "exn \<Rightarrow> bool" where
  "is_JSONDecodeError (JSONDecodeError m) = True"
| "is_JSONDecodeError (RequestsJSONDecodeError m) = True"
| "is_JSONDecodeError e = False"

fun exn_message :: "exn \<Rightarrow> string" where
  "exn_message (RequestException m) = m"
| "exn_message (RequestsJSONDecodeError m) = m"
| "exn_message (JSONDecodeError m) = m"
| "exn_message (TypeError m) = m"
| "exn_message (ValueError m) = m"
| "exn_message (RecursionError m) = m"
| "exn_message (UnicodeEncodeError m) = m"
| "exn_message (AttributeError m) = m"
| "exn_message (AssertionError m) = m"
| "exn_message (SystemExit m) = m"
| "exn_message (OtherException c m) = m"

subsection \<open>Integers and their text\<close>

text \<open>
  Python integers are unbounded: \<open>int\<close>. \<open>py_str\<close> is \<^verbatim>\<open>str(n)\<close>, \<open>py_int b s\<close> is
  \<^verbatim>\<open>int(s, b)\<close> on a sign followed by digits (the only texts the script builds) and
  raises \<open>ValueError\<close> on anything else. \<open>uuid_hex\<close> is the \<^verbatim>\<open>hex\<close> attribute of a
  UUID, \<^verbatim>\<open>'%032x' % self.int\<close>. Python's \<^verbatim>\<open>%\<close> rounds towards minus infinity, as
  \<open>mod\<close> on \<open>int\<close> does.
\<close>

definition digit_char :: "nat \<Rightarrow> char" where
  "digit_char d = (if d < 10 then char_of (48 + d) else char_of (87 + d))"

definition digit_val :: "char \<Rightarrow> nat option" where
  "digit_val c =
     (let n = (of_char c :: nat) in
      if 48 \<le> n \<and> n \<le> 57 then Some (n - 48)
      else if 97 \<le> n \<and> n \<le> 122 then Some (n - 87)
      else if 65 \<le> n \<and> n \<le> 90 then Some (n - 55)
      else None)"

fun to_digits :: "nat \<Rightarrow> nat \<Rightarrow> nat list" where
  "to_digits b n = (if b < 2 \<or> n < b then [n] else to_digits b (n div b) @ [n mod b])"

declare to_digits.simps [simp del]

definition py_str :: "int \<Rightarrow> string" where
  "py_str i =
     (if i < 0 then CHR ''-'' # map digit_char (to_digits 10 (nat (- i)))
      else map digit_char (to_digits 10 (nat i)))"

fun parse_digits :: "nat \<Rightarrow> nat \<Rightarrow> string \<Rightarrow> nat option" where
  "parse_digits b acc [] = Some acc"
| "parse_digits b acc (c # cs) =
     (case digit_val c of
        None \<Rightarrow> None
      | Some d \<Rightarrow> if d < b then parse_digits b (acc * b + d) cs else None)"

definition py_int :: "nat \<Rightarrow> string \<Rightarrow> exn + int" where
  "py_int b s =
     (let bad = Inl (ValueError (''invalid literal for int(): '' @ s)) in
      case s of
        [] \<Rightarrow> bad
      | c # cs \<Rightarrow>
          if c = CHR ''-'' \<or> c = CHR ''+'' then
            (if cs = [] then bad
             else case parse_digits b 0 cs of
                    None \<Rightarrow> bad
                  | Some n \<Rightarrow> Inr (if c = CHR ''-'' then - int n else int n))
          else (case parse_digits b 0 s of None \<Rightarrow> bad | Some n \<Rightarrow> Inr (int n)))"

definition zero_pad :: "nat \<Rightarrow> string \<Rightarrow> string" where
  "zero_pad width s = replicate (width - length s) (CHR ''0'') @ s"

definition uuid_hex :: "128 word \<Rightarrow> string" where
  "uuid_hex u = zero_pad 32 (map digit_char (to_digits 16 (unat u)))"

subsection \<open>Strings\<close>

text \<open>
  A Python \<^verbatim>\<open>str\<close> is a \<open>string\<close>; the model's characters are the code points below
  256. \<open>py_in\<close> is the substring test \<^verbatim>\<open>sub in s\<close>, \<open>py_lower\<close> is \<^verbatim>\<open>s.lower()\<close>
  (on these code points: the ASCII capitals and the Latin-1 capitals 192 to 222 but the
  multiplication sign 215 move up by 32), \<open>py_join\<close> is \<^verbatim>\<open>sep.join(xs)\<close>.
\<close>

fun is_prefix :: "string \<Rightarrow> string \<Rightarrow> bool" where
  "is_prefix [] s = True"
| "is_prefix (c # cs) [] = False"
| "is_prefix (c # cs) (d # ds) = (c = d \<and> is_prefix cs ds)"

fun py_in :: "string \<Rightarrow> string \<Rightarrow> bool" where
  "py_in sub [] = (sub = [])"
| "py_in sub (c # cs) = (is_prefix sub (c # cs) \<or> py_in sub cs)"

definition py_lower_char :: "char \<Rightarrow> char" where
  "py_lower_char c =
     (let n = (of_char c :: nat) in
      if (65 \<le> n \<and> n \<le> 90) \<or> (192 \<le> n \<and> n \<le> 222 \<and> n \<noteq> 215)
      then char_of (n + 32) else c)"

definition py_lower :: "string \<Rightarrow> string" where
  "py_lower s = map py_lower_char s"

fun py_join :: "string \<Rightarrow> string list \<Rightarrow> string" where
  "py_join sep [] = []"
| "py_join sep [x] = x"
| "py_join sep (x # y # ys) = x @ sep @ py_join sep (y # ys)"

subsection \<open>Python objects and json.dumps\<close>

text \<open>
  A Python object, as \<^verbatim>\<open>json.dumps\<close> and \<^verbatim>\<open>json.loads\<close> see it. A dict is an
  association list in insertion order, with distinct \<^verbatim>\<open>str\<close> keys. A float carries
  the text \<^verbatim>\<open>json.dumps\<close> writes for it (its \<^verbatim>\<open>repr\<close>, or \<^verbatim>\<open>NaN\<close>, \<^verbatim>\<open>Infinity\<close>,
  \<^verbatim>\<open>-Infinity\<close>), since no arithmetic is done on it. \<open>PUnencodable e\<close> is a place in
  the object where the encoder raises \<open>e\<close>: an object of a type it does not know
  (\<open>TypeError\<close>), a container met again inside itself (\<open>ValueError\<close>, circular
  reference), a level of nesting deeper than the interpreter's recursion limit
  (\<open>RecursionError\<close>). Such an object is no dict and no \<^verbatim>\<open>str\<close>.
\<close>

datatype pyval =
    PNone
  | PBool bool
  | PInt int
  | PFloat string
  | PStr string
  | PList "pyval list"
  | PDict "(string \<times> pyval) list"
  | PUnencodable exn

text \<open>
  \<^verbatim>\<open>json.dumps\<close> walks the object from left to right and raises at the first place it
  cannot encode. An \<^verbatim>\<open>int\<close> of more than 4300 decimal digits is such a place too:
  CPython refuses to turn it into text (\<^verbatim>\<open>sys.int_max_str_digits\<close>).
\<close>

definition int_too_long :: "int \<Rightarrow> bool" where
  "int_too_long i = (10 ^ 4300 \<le> \<bar>i\<bar>)"

fun first_some :: "'a option list \<Rightarrow> 'a option" where
  "first_some [] = None"
| "first_some (None # xs) = first_some xs"
| "first_some (Some x # xs) = Some x"

fun dumps_error :: "pyval \<Rightarrow> exn option" where
  "dumps_error PNone = None"
| "dumps_error (PBool b) = None"
| "dumps_error (PInt i) =
     (if int_too_long i
      then Some (ValueError ''Exceeds the limit (4300 digits) for integer string conversion'')
      else None)"
| "dumps_error (PFloat r) = None"
| "dumps_error (PStr s) = None"
| "dumps_error (PList xs) = first_some (map dumps_error xs)"
| "dumps_error (PDict kvs) = first_some (map (\<lambda>kv. dumps_error (snd kv)) kvs)"
| "dumps_error (PUnencodable e) = Some e"


text \<open>
  \<open>json_encode\<close> is the text of \<^verbatim>\<open>json.dumps(v, indent=ind)\<close> for an object that
  can be encoded, with the default \<^verbatim>\<open>ensure_ascii\<close> and separators.
\<close>

definition hex_pad :: "nat \<Rightarrow> nat \<Rightarrow> string" where
  "hex_pad width n = zero_pad width (map digit_char (to_digits 16 n))"

definition json_escape_char :: "char \<Rightarrow> string" where
  "json_escape_char c =
     (let n = (of_char c :: nat) in
      if n = 34 then [CHR 0x5C, CHR 0x22]
      else if n = 92 then [CHR 0x5C, CHR 0x5C]
      else if n = 10 then [CHR 0x5C, CHR ''n'']
      else if n = 13 then [CHR 0x5C, CHR ''r'']
      else if n = 9 then [CHR 0x5C, CHR ''t'']
      else if n = 8 then [CHR 0x5C, CHR ''b'']
      else if n = 12 then [CHR 0x5C, CHR ''f'']
      else if n < 32 \<or> 126 < n then [CHR 0x5C, CHR ''u''] @ hex_pad 4 n
      else [c])"

definition json_quote :: "string \<Rightarrow> string" where
  "json_quote s = [CHR 0x22] @ concat (map json_escape_char s) @ [CHR 0x22]"

definition newline_indent :: "nat \<Rightarrow> nat \<Rightarrow> string" where
  "newline_indent n lvl = CHR 0x0A # replicate (n * lvl) (CHR '' '')"

fun json_encode :: "nat option \<Rightarrow> nat \<Rightarrow> pyval \<Rightarrow> string" where
  "json_encode ind lvl PNone = ''null''"
| "json_encode ind lvl (PBool b) = (if b then ''true'' else ''false'')"
| "json_encode ind lvl (PInt i) = py_str i"
| "json_encode ind lvl (PFloat r) = r"
| "json_encode ind lvl (PStr s) = json_quote s"
| "json_encode ind lvl (PList xs) =
     (if xs = [] then ''[]''
      else case ind of
        None \<Rightarrow> ''['' @ py_join '', '' (map (json_encode ind lvl) xs) @ '']''
      | Some n \<Rightarrow>
          ''['' @ newline_indent n (Suc lvl)
          @ py_join ('','' @ newline_indent n (Suc lvl)) (map (json_encode ind (Suc lvl)) xs)
          @ newline_indent n lvl @ '']'')"
| "json_encode ind lvl (PDict kvs) =
     (if kvs = [] then ''{}''
      else case ind of
        None \<Rightarrow>
          ''{'' @ py_join '', ''
                   (map (\<lambda>kv. json_quote (fst kv) @ '': '' @ json_encode ind lvl (snd kv)) kvs)
          @ ''}''
      | Some n \<Rightarrow>
          ''{'' @ newline_indent n (Suc lvl)
          @ py_join ('','' @ newline_indent n (Suc lvl))
              (map (\<lambda>kv. json_quote (fst kv) @ '': '' @ json_encode ind (Suc lvl) (snd kv)) kvs)
          @ newline_indent n lvl @ ''}'')"
| "json_encode ind lvl (PUnencodable e) = []"

definition json_dumps :: "nat option \<Rightarrow> pyval \<Rightarrow> exn + string" where
  "json_dumps ind v =
     (case dumps_error v of Some e \<Rightarrow> Inl e | None \<Rightarrow> Inr (json_encode ind 0 v))"

subsection \<open>The text of a headers dict\<close>

text \<open>
  A headers mapping is a dict from header names to values, both \<^verbatim>\<open>str\<close>.
  \<open>py_repr_dict\<close> is what an f-string shows for it: \<^verbatim>\<open>repr\<close> of each key and value.
\<close>

type_synonym headers = "(string \<times> string) list"

definition py_repr_char :: "char \<Rightarrow> char \<Rightarrow> string" where
  "py_repr_char q c =
     (let n = (of_char c :: nat) in
      if n = 92 then [CHR 0x5C, CHR 0x5C]
      else if c = q then [CHR 0x5C, c]
      else if n = 10 then [CHR 0x5C, CHR ''n'']
      else if n = 13 then [CHR 0x5C, CHR ''r'']
      else if n = 9 then [CHR 0x5C, CHR ''t'']
      else if n < 32 \<or> n = 127 \<or> (128 \<le> n \<and> n \<le> 160) \<or> n = 173
        then [CHR 0x5C, CHR ''x''] @ hex_pad 2 n
      else [c])"

definition py_repr_str :: "string \<Rightarrow> string" where
  "py_repr_str s =
     (let q = (if CHR 0x27 \<in> set s \<and> CHR 0x22 \<notin> set s then CHR 0x22 else CHR 0x27)
      in [q] @ concat (map (py_repr_char q) s) @ [q])"

definition py_repr_dict :: "headers \<Rightarrow> string" where
  "py_repr_dict hs =
     ''{'' @ py_join '', '' (map (\<lambda>kv. py_repr_str (fst kv) @ '': '' @ py_repr_str (snd kv)) hs)
     @ ''}''"

section \<open>The world the script runs in\<close>

text \<open>
  A call of \<^verbatim>\<open>requests.post\<close> is recorded as the arguments the source passes. A
  response object is read through \<^verbatim>\<open>status_code\<close>, \<^verbatim>\<open>content\<close> (the body's bytes),
  \<^verbatim>\<open>text\<close> (the body decoded; \<open>body_text\<close> here) and \<^verbatim>\<open>json()\<close>. \<open>json_result\<close> is
  what \<^verbatim>\<open>json()\<close> does: it returns the parsed document or raises; for a body that is
  not JSON it raises a \<open>JSONDecodeError\<close> (\<^verbatim>\<open>requests.exceptions.JSONDecodeError\<close> since
  requests 2.27), for a body nested too deep \<open>RecursionError\<close>, for an integer of more
  than 4300 digits \<open>ValueError\<close>.
\<close>

record post_call =
  req_url :: string
  req_headers :: headers
  req_data :: string
  req_timeout :: nat

record response =
  status_code :: int
  content :: string
  body_text :: string
  json_result :: "exn + pyval"

text \<open>
  A call of \<^verbatim>\<open>requests.post\<close> returns a response object or raises. What it raises for
  a failure in transport (connection error, timeout, ...) is a \<open>RequestException\<close>; it
  can raise other exceptions too (\<open>UnicodeEncodeError\<close> for a header name outside
  ASCII). How many HTTP requests one call puts on the wire is the library's business:
  none when it rejects the headers, more than one when it follows a redirect.
\<close>

datatype post_outcome = Raised exn | Received response

text \<open>
  The script reads three things it does not control: \<^verbatim>\<open>uuid.uuid4()\<close>, the clock and
  what \<^verbatim>\<open>requests.post\<close> does. The world holds what the \<open>n\<close>-th read of each gives
  (\<open>network\<close> for \<^verbatim>\<open>requests.post\<close>), how many reads were made, the calls of
  \<^verbatim>\<open>requests.post\<close> made so far and the lines printed so far. A clock reading is the
  integer \<^verbatim>\<open>int(time.time() * 1000000)\<close>.
\<close>

record world =
  uuid4_src :: "nat \<Rightarrow> 128 word"
  uuid4_calls :: nat
  clock_src :: "nat \<Rightarrow> int"
  clock_reads :: nat
  network :: "nat \<Rightarrow> post_call \<Rightarrow> post_outcome"
  post_calls :: "post_call list"
  stdout :: "string list"

text \<open>
  A piece of the script takes the world and gives the world after it, with the value it
  computed or the exception it raised. \<open>bnd\<close> runs one statement after another and
  stops at the first exception; \<open>try_except body caught handler\<close> is
  \<^verbatim>\<open>try: body  except C as e: handler\<close> for the exception classes \<open>caught\<close> accepts, and
  lets every other exception through; \<open>py_assert\<close> is the \<^verbatim>\<open>assert\<close> statement, whose
  message is only built when the condition fails.
\<close>

type_synonym 'a prog = "world \<Rightarrow> (exn + 'a) \<times> world"

definition ret :: "'a \<Rightarrow> 'a prog" where
  "ret x w = (Inr x, w)"

definition py_raise :: "exn \<Rightarrow> 'a prog" where
  "py_raise e w = (Inl e, w)"

definition bnd :: "'a prog \<Rightarrow> ('a \<Rightarrow> 'b prog) \<Rightarrow> 'b prog" where
  "bnd m f w = (case m w of (Inl e, w') \<Rightarrow> (Inl e, w') | (Inr x, w') \<Rightarrow> f x w')"

definition lift :: "exn + 'a \<Rightarrow> 'a prog" where
  "lift r w = (r, w)"

definition try_except :: "'a prog \<Rightarrow> (exn \<Rightarrow> bool) \<Rightarrow> (exn \<Rightarrow> 'a prog) \<Rightarrow> 'a prog" where
  "try_except body caught handler w =
     (case body w of
        (Inl e, w') \<Rightarrow> if caught e then handler e w' else (Inl e, w')
      | (Inr x, w') \<Rightarrow> (Inr x, w'))"

definition py_print :: "string \<Rightarrow> unit prog" where
  "py_print line w = (Inr (), w\<lparr>stdout := stdout w @ [line]\<rparr>)"

definition py_assert :: "bool \<Rightarrow> string \<Rightarrow> unit prog" where
  "py_assert c msg = (if c then ret () else py_raise (AssertionError msg))"

definition uuid4 :: "128 word prog" where
  "uuid4 w = (Inr (uuid4_src w (uuid4_calls w)), w\<lparr>uuid4_calls := Suc (uuid4_calls w)\<rparr>)"

definition time_micros :: "int prog" where
  "time_micros w = (Inr (clock_src w (clock_reads w)), w\<lparr>clock_reads := Suc (clock_reads w)\<rparr>)"

definition requests_post :: "string \<Rightarrow> headers \<Rightarrow> string \<Rightarrow> nat \<Rightarrow> response prog" where
  "requests_post u hs d t w =
     (let call = \<lparr>req_url = u, req_headers = hs, req_data = d, req_timeout = t\<rparr>;
          w' = w\<lparr>post_calls := post_calls w @ [call]\<rparr>
      in case network w (length (post_calls w)) call of
           Raised e \<Rightarrow> (Inl e, w')
         | Received r \<Rightarrow> (Inr r, w'))"

definition response_json :: "response \<Rightarrow> pyval prog" where
  "response_json r = lift (json_result r)"

text \<open>
  \<^verbatim>\<open>requests.Response.__bool__\<close> returns \<^verbatim>\<open>self.ok\<close>: a response is falsy exactly when
  \<^verbatim>\<open>raise_for_status()\<close> would raise, that is for a status from 400 to 599.
\<close>

definition response_ok :: "response \<Rightarrow> bool" where
  "response_ok r = (\<not> (400 \<le> status_code r \<and> status_code r < 600))"

section \<open>The source\<close>

definition BASE_URL :: string where
  "BASE_URL = ''https://automation.goview.me/create/user''"

definition ROLL_NUMBER :: string where
  "ROLL_NUMBER = ''2''"

definition send_request :: "headers \<Rightarrow> pyval \<Rightarrow> response option prog" where
  "send_request hdrs data =
     try_except
       (bnd (py_print (CHR 0x0A # ''--- Sending Request ---'')) (\<lambda>_.
        bnd (py_print (''Request URL: '' @ BASE_URL)) (\<lambda>_.
        bnd (py_print (''Request Headers: '' @ py_repr_dict hdrs)) (\<lambda>_.
        bnd (lift (json_dumps (Some 2) data)) (\<lambda>pretty.
        bnd (py_print (''Request Data: '' @ pretty)) (\<lambda>_.
        bnd (lift (json_dumps None data)) (\<lambda>body.
        bnd (requests_post BASE_URL hdrs body 15) (\<lambda>response.
        bnd (py_print (''Response Status: '' @ py_str (status_code response))) (\<lambda>_.
        bnd (try_except
               (bnd (if content response \<noteq> [] then response_json response
                     else ret (PStr ''No Content'')) (\<lambda>response_body.
                bnd (lift (json_dumps (Some 2) response_body)) (\<lambda>shown.
                py_print (''Response Body: '' @ shown))))
               is_JSONDecodeError
               (\<lambda>_. py_print (''Response Body (Non-JSON): '' @ body_text response))) (\<lambda>_.
        bnd (py_print ''-----------------------'') (\<lambda>_.
        ret (Some response))))))))))))
       is_RequestException
       (\<lambda>e.
        bnd (py_print (CHR 0x0A # ''--- Request Failed ---'')) (\<lambda>_.
        bnd (py_print (''Request failed due to exception: '' @ exn_message e)) (\<lambda>_.
        bnd (py_print ''----------------------'') (\<lambda>_.
        ret None))))"

definition generate_very_unique_phone_number :: "int prog" where
  "generate_very_unique_phone_number =
     (let base_num = 9000000000 in
      bnd uuid4 (\<lambda>u.
      bnd (lift (py_int 16 (uuid_hex u))) (\<lambda>unique_part.
      bnd time_micros (\<lambda>timestamp_part.
      let suffix_part = (unique_part + timestamp_part) mod 1000000000;
          phone_number = base_num + suffix_part
      in lift (py_int 10 (take 10 (py_str phone_number)))))))"

definition generate_very_unique_email :: "string prog" where
  "generate_very_unique_email =
     bnd uuid4 (\<lambda>u.
     bnd time_micros (\<lambda>t.
     ret (''testuser_'' @ uuid_hex u @ ''_'' @ py_str t @ ''@example.com'')))"

subsection \<open>Test Case 1.1: user creation attempt\<close>

definition is_400_user_exists :: "response \<Rightarrow> bool" where
  "is_400_user_exists r =
     (status_code r = 400 \<and> content r \<noteq> [] \<and>
      py_in ''user already exists'' (py_lower (body_text r)))"

definition headers_1_1 :: headers where
  "headers_1_1 = [(''roll-number'', ROLL_NUMBER), (''Content-Type'', ''application/json'')]"

definition data_1_1 :: "int \<Rightarrow> string \<Rightarrow> pyval" where
  "data_1_1 phone email =
     (PDict
       [(''firstName'', PStr ''StandardTestUser''),
        (''lastName'', PStr ''StandardTestLast''),
        (''phoneNumber'', PInt phone),
        (''emailId'', PStr email)])"

definition tc_1_1_asserts :: "response option \<Rightarrow> unit prog" where
  "tc_1_1_asserts response_1_1 =
     (case response_1_1 of
        None \<Rightarrow>
          py_raise (AssertionError
            ''TC 1.1 Failed: Request did not get a response. Connection likely failed or timed out.'')
      | Some r \<Rightarrow>
          (let expected_status_codes = [200, 201] in
           bnd (py_assert (status_code r \<in> set expected_status_codes \<or> is_400_user_exists r)
                  (''TC 1.1 Failed: Unexpected status code. Expected 200/201 or 400 (user exists), ''
                   @ ''got '' @ py_str (status_code r) @ ''. Response: '' @ body_text r)) (\<lambda>_.
           bnd (if status_code r \<in> set expected_status_codes then
                  py_print ''TC 1.1: PASSED (User created successfully - Status 200/201)''
                else if is_400_user_exists r then
                  py_print ''TC 1.1: PASSED (User creation failed as expected: User already exists - Status 400)''
                else
                  py_print ''TC 1.1: FAILED (Unexpected API response despite assertion pass criteria)'') (\<lambda>_.
           py_print (''--- Test Case 1.1 Complete ---'' @ [CHR 0x0A])))))"

definition tc_1_1 :: "unit prog" where
  "tc_1_1 =
     bnd (py_print (CHR 0x0A # ''=== Test Case 1.1: User Creation Attempt ==='')) (\<lambda>_.
     bnd generate_very_unique_phone_number (\<lambda>phone.
     bnd generate_very_unique_email (\<lambda>email.
     bnd (send_request headers_1_1 (data_1_1 phone email)) tc_1_1_asserts)))"

subsection \<open>Test Case 2.1: missing roll-number header\<close>

definition headers_2_1 :: headers where
  "headers_2_1 = [(''Content-Type'', ''application/json'')]"

definition data_2_1 :: "int \<Rightarrow> string \<Rightarrow> pyval" where
  "data_2_1 phone email =
     (PDict
       [(''firstName'', PStr ''Jane''),
        (''lastName'', PStr ''Doe''),
        (''phoneNumber'', PInt phone),
        (''emailId'', PStr email)])"

definition tc_2_1_asserts :: "response option \<Rightarrow> unit prog" where
  "tc_2_1_asserts response_2_1 =
     (case response_2_1 of
        None \<Rightarrow>
          py_raise (AssertionError
            ''TC 2.1 Failed: Request did not get a response. Connection likely failed or timed out.'')
      | Some r \<Rightarrow>
          bnd (py_assert (status_code r = 401)
                 (''TC 2.1 Failed: Expected 401, got '' @ py_str (status_code r)
                  @ ''. Response: '' @ body_text r)) (\<lambda>_.
          bnd (py_print ''TC 2.1: PASSED'') (\<lambda>_.
          py_print (''--- Test Case 2.1 Complete ---'' @ [CHR 0x0A]))))"

definition tc_2_1 :: "unit prog" where
  "tc_2_1 =
     bnd (py_print (CHR 0x0A # ''=== Test Case 2.1: Missing roll-number Header ==='')) (\<lambda>_.
     bnd generate_very_unique_phone_number (\<lambda>phone.
     bnd generate_very_unique_email (\<lambda>email.
     bnd (send_request headers_2_1 (data_2_1 phone email)) tc_2_1_asserts)))"

subsection \<open>Test Case 3.1: duplicate phoneNumber\<close>

definition setup_headers :: headers where
  "setup_headers = [(''roll-number'', ROLL_NUMBER), (''Content-Type'', ''application/json'')]"

definition setup_data :: "int \<Rightarrow> string \<Rightarrow> pyval" where
  "setup_data duplicate_phone_number email =
     (PDict
       [(''firstName'', PStr ''SetupUser''),
        (''lastName'', PStr ''SetupLast''),
        (''phoneNumber'', PInt duplicate_phone_number),
        (''emailId'', PStr email)])"

definition tc_3_1_setup_asserts :: "response option \<Rightarrow> unit prog" where
  "tc_3_1_setup_asserts setup_response =
     (case setup_response of
        None \<Rightarrow>
          py_raise (AssertionError
            ''TC 3.1 Setup Failed: Request did not get a response. Connection likely failed or timed out.'')
      | Some r \<Rightarrow>
          (let setup_expected_status_codes = [200, 201] in
           bnd (py_assert (status_code r \<in> set setup_expected_status_codes \<or> is_400_user_exists r)
                  (''TC 3.1 Setup Failed: Expected 200/201 or 400 (user exists), ''
                   @ ''got '' @ py_str (status_code r) @ ''. Response: '' @ body_text r)) (\<lambda>_.
           if status_code r \<in> set setup_expected_status_codes then
             py_print ''--- TC 3.1 Setup Complete (User created for duplication) ---''
           else if is_400_user_exists r then
             py_print ''--- TC 3.1 Setup Complete (User already exists for duplication) ---''
           else
             bnd (py_print ''--- TC 3.1 Setup FAILED (Unexpected API response) ---'') (\<lambda>_.
             py_raise (SystemExit ''Exiting due to setup failure for Test Case 3.1'')))))"

definition headers_3_1 :: headers where
  "headers_3_1 = [(''roll-number'', ROLL_NUMBER), (''Content-Type'', ''application/json'')]"

definition data_3_1 :: "int \<Rightarrow> string \<Rightarrow> pyval" where
  "data_3_1 duplicate_phone_number email =
     (PDict
       [(''firstName'', PStr ''NewUser''),
        (''lastName'', PStr ''NewLast''),
        (''phoneNumber'', PInt duplicate_phone_number),
        (''emailId'', PStr email)])"

text \<open>
  \<^verbatim>\<open>response_json.get("message", "").lower()\<close>: \<^verbatim>\<open>get\<close> exists on a dict only and
  \<^verbatim>\<open>lower\<close> on a \<^verbatim>\<open>str\<close> only; on anything else the attribute lookup raises
  \<open>AttributeError\<close>.
\<close>

fun message_lower :: "pyval \<Rightarrow> string prog" where
  "message_lower (PDict kvs) =
     (case map_of kvs ''message'' of
        None \<Rightarrow> ret (py_lower [])
      | Some (PStr m) \<Rightarrow> ret (py_lower m)
      | Some v \<Rightarrow> py_raise (AttributeError ''object has no attribute lower''))"
| "message_lower v = py_raise (AttributeError ''object has no attribute get'')"

definition tc_3_1_asserts :: "response option \<Rightarrow> unit prog" where
  "tc_3_1_asserts response_3_1 =
     (case response_3_1 of
        None \<Rightarrow>
          py_raise (AssertionError
            ''TC 3.1 Failed: Request did not get a response. Connection likely failed or timed out.'')
      | Some r \<Rightarrow>
          bnd (py_assert (status_code r = 400)
                 (''TC 3.1 Failed: Expected 400, got '' @ py_str (status_code r)
                  @ ''. Response: '' @ body_text r)) (\<lambda>_.
          bnd (if response_ok r \<and> content r \<noteq> [] then
                 try_except
                   (bnd (response_json r) (\<lambda>response_json.
                    bnd (message_lower response_json) (\<lambda>error_message.
                    py_assert (py_in ''phone number'' error_message
                               \<or> py_in ''user already exists'' error_message)
                      (''TC 3.1 Failed: Expected '' @ [CHR 0x27] @ ''phone number'' @ [CHR 0x27]
                       @ '' or '' @ [CHR 0x27] @ ''user already exists'' @ [CHR 0x27]
                       @ '' in error message, got '' @ [CHR 0x27] @ error_message @ [CHR 0x27]))))
                   is_JSONDecodeError
                   (\<lambda>_. py_print
                      ''Warning: TC 3.1: Response body for error is not valid JSON. Cannot assert message content.'')
               else ret ()) (\<lambda>_.
          bnd (py_print ''TC 3.1: PASSED'') (\<lambda>_.
          py_print (''--- Test Case 3.1 Complete ---'' @ [CHR 0x0A])))))"

definition tc_3_1 :: "unit prog" where
  "tc_3_1 =
     bnd (py_print (CHR 0x0A # ''=== Test Case 3.1: Duplicate phoneNumber ==='')) (\<lambda>_.
     bnd (py_print (CHR 0x0A # ''--- TC 3.1 Setup: Creating a user for phone number duplication ---'')) (\<lambda>_.
     bnd generate_very_unique_phone_number (\<lambda>duplicate_phone_number.
     bnd generate_very_unique_email (\<lambda>setup_email.
     bnd (send_request setup_headers (setup_data duplicate_phone_number setup_email)) (\<lambda>setup_response.
     bnd (tc_3_1_setup_asserts setup_response) (\<lambda>_.
     bnd generate_very_unique_email (\<lambda>email.
     bnd (send_request headers_3_1 (data_3_1 duplicate_phone_number email)) tc_3_1_asserts)))))))"

subsection \<open>The script\<close>

definition script :: "unit prog" where
  "script =
     bnd tc_1_1 (\<lambda>_.
     bnd tc_2_1 (\<lambda>_.
     bnd tc_3_1 (\<lambda>_.
     py_print (CHR 0x0A # ''--- All tests completed (basic example) ---''))))"

section \<open>What can end the script\<close>

text \<open>
  An exception is a library exception of a network when some call of
  \<^verbatim>\<open>requests.post\<close> raises it, or some response it returns has a body on which
  \<^verbatim>\<open>json()\<close>, or \<^verbatim>\<open>json.dumps\<close> of the parsed body, raises it, and no handler of
  \<open>send_request\<close> takes it: it is no \<open>RequestException\<close> and, for a body, no
  \<open>JSONDecodeError\<close> either. \<open>step_ok m\<close> says of a piece \<open>m\<close> of the script that it
  leaves the network as it is, only adds lines to the output, and raises nothing but
  an \<open>AssertionError\<close> or a library exception.
\<close>

definition library_exception :: "(nat \<Rightarrow> post_call \<Rightarrow> post_outcome) \<Rightarrow> exn \<Rightarrow> bool" where
  "library_exception net e =
     (\<not> is_RequestException e
      \<and> (\<exists>n c. net n c = Raised e
             \<or> (\<exists>r. net n c = Received r \<and> content r \<noteq> [] \<and> \<not> is_JSONDecodeError e
                   \<and> (json_result r = Inl e
                       \<or> (\<exists>d. json_result r = Inr d \<and> json_dumps (Some 2) d = Inl e)))))"

definition script_exception :: "(nat \<Rightarrow> post_call \<Rightarrow> post_outcome) \<Rightarrow> exn \<Rightarrow> bool" where
  "script_exception net e = ((\<exists>m. e = AssertionError m) \<or> library_exception net e)"

definition step_ok :: "'a prog \<Rightarrow> bool" where
  "step_ok m =
     (\<forall>w. network (snd (m w)) = network w
          \<and> (\<exists>xs. stdout (snd (m w)) = stdout w @ xs)
          \<and> (\<forall>e. fst (m w) = Inl e \<longrightarrow> script_exception (network w) e))"


section \<open>Concrete worlds\<close>

text \<open>
  Worlds and responses for running the definitions on concrete inputs. In \<open>world0\<close>
  every call of \<^verbatim>\<open>requests.post\<close> fails with a connection error;
  \<open>world_answering r\<close> answers every call with \<open>r\<close>; \<open>world_in_order\<close> answers the
  first call with a creation, the second with the refusal of a request that has no
  roll-number header, and every later call with the "user already exists" refusal.
\<close>

definition world0 :: world where
  "world0 =
     \<lparr>uuid4_src = (\<lambda>n. 255 + word_of_nat n), uuid4_calls = 0,
      clock_src = (\<lambda>n. 1700000000000000 + int n), clock_reads = 0,
      network = (\<lambda>n c. Raised (RequestException ''Connection refused'')),
      post_calls = [], stdout = []\<rparr>"

definition bad_gateway :: response where
  "bad_gateway =
     \<lparr>status_code = 502, content = ''Bad Gateway'', body_text = ''Bad Gateway'',
      json_result = Inl (RequestsJSONDecodeError ''Expecting value: line 1 column 1 (char 0)'')\<rparr>"

definition created_201 :: response where
  "created_201 =
     \<lparr>status_code = 201,
      content = json_encode None 0 (PDict [(''message'', PStr ''User created'')]),
      body_text = json_encode None 0 (PDict [(''message'', PStr ''User created'')]),
      json_result = Inr (PDict [(''message'', PStr ''User created'')])\<rparr>"

definition user_exists_400 :: response where
  "user_exists_400 =
     \<lparr>status_code = 400,
      content = json_encode None 0 (PDict [(''message'', PStr ''User already exists'')]),
      body_text = json_encode None 0 (PDict [(''message'', PStr ''User already exists'')]),
      json_result = Inr (PDict [(''message'', PStr ''User already exists'')])\<rparr>"

definition unauthorized_401 :: response where
  "unauthorized_401 =
     \<lparr>status_code = 401, content = [], body_text = [],
      json_result = Inl (RequestsJSONDecodeError ''Expecting value: line 1 column 1 (char 0)'')\<rparr>"

definition empty_400 :: response where
  "empty_400 =
     \<lparr>status_code = 400, content = [], body_text = [],
      json_result = Inl (RequestsJSONDecodeError ''Expecting value: line 1 column 1 (char 0)'')\<rparr>"



definition world_answering :: "response \<Rightarrow> world" where
  "world_answering r = world0\<lparr>network := (\<lambda>n c. Received r)\<rparr>"

definition world_in_order :: world where
  "world_in_order =
     world0\<lparr>network := (\<lambda>n c. if n = 0 then Received created_201
                              else if n = 1 then Received unauthorized_401
                              else Received user_exists_400)\<rparr>"

text \<open>
  A world that answers the first call with a creation and every later call with a
  400 that has no body.
\<close>

definition world_then_empty_400 :: world where
  "world_then_empty_400 =
     world0\<lparr>network := (\<lambda>n c. if n = 0 then Received created_201 else Received empty_400)\<rparr>"

section \<open>Integers and their text: round trips\<close>

lemma digit_val_digit_char: "d < 16 \<Longrightarrow> digit_val (digit_char d) = Some d"
  by (auto simp: digit_val_def digit_char_def Let_def)

lemma parse_digits_append:
  "parse_digits b acc (xs @ ys) =
     (case parse_digits b acc xs of None \<Rightarrow> None | Some a \<Rightarrow> parse_digits b a ys)"
  by (induction xs arbitrary: acc) (auto split: option.splits)

lemma to_digits_small: "n < b \<Longrightarrow> to_digits b n = [n]"
  by (subst to_digits.simps) simp

lemma to_digits_step:
  "2 \<le> b \<Longrightarrow> b \<le> n \<Longrightarrow> to_digits b n = to_digits b (n div b) @ [n mod b]"
  by (subst to_digits.simps) simp

lemma to_digits_nonempty: "to_digits b n \<noteq> []"
  by (subst to_digits.simps) simp

lemma to_digits_bound: "2 \<le> b \<Longrightarrow> d \<in> set (to_digits b n) \<Longrightarrow> d < b"
proof (induction b n rule: to_digits.induct)
  case (1 b n)
  show ?case
  proof (cases "n < b")
    case True
    with 1 show ?thesis by (simp add: to_digits_small)
  next
    case False
    then have "to_digits b n = to_digits b (n div b) @ [n mod b]"
      using 1(2) by (simp add: to_digits_step)
    with 1 False show ?thesis by auto
  qed
qed

lemma parse_to_digits:
  "2 \<le> b \<Longrightarrow> b \<le> 16 \<Longrightarrow> parse_digits b 0 (map digit_char (to_digits b n)) = Some n"
proof (induction b n rule: to_digits.induct)
  case (1 b n)
  show ?case
  proof (cases "n < b")
    case True
    with 1 show ?thesis
      by (simp add: to_digits_small digit_val_digit_char)
  next
    case False
    then have step: "to_digits b n = to_digits b (n div b) @ [n mod b]"
      using 1(2) by (simp add: to_digits_step)
    from 1 False have ih: "parse_digits b 0 (map digit_char (to_digits b (n div b))) = Some (n div b)"
      by simp
    have lt: "n mod b < b" using 1(2) by simp
    then have "n mod b < 16" using 1(3) by simp
    then have dv: "digit_val (digit_char (n mod b)) = Some (n mod b)"
      by (rule digit_val_digit_char)
    show ?thesis
      by (simp add: step parse_digits_append ih dv lt)
  qed
qed

lemma parse_leading_zeros:
  "0 < b \<Longrightarrow> parse_digits b 0 (replicate k (CHR ''0'') @ s) = parse_digits b 0 s"
  by (induction k) (simp_all add: digit_val_def)

lemma to_digits_length_le:
  "2 \<le> b \<Longrightarrow> n < b ^ Suc k \<Longrightarrow> length (to_digits b n) \<le> Suc k"
proof (induction k arbitrary: n)
  case 0
  then show ?case by (simp add: to_digits_small)
next
  case (Suc k)
  show ?case
  proof (cases "n < b")
    case True
    then show ?thesis by (simp add: to_digits_small)
  next
    case False
    have "n div b < b ^ Suc k"
      using Suc.prems by (simp add: less_mult_imp_div_less mult.commute)
    then have "length (to_digits b (n div b)) \<le> Suc k"
      using Suc.IH Suc.prems(1) by blast
    then show ?thesis using False Suc.prems(1) by (simp add: to_digits_step)
  qed
qed

lemma to_digits_10_shape:
  "1 \<le> d \<Longrightarrow> d \<le> 9 \<Longrightarrow> d * 10 ^ k \<le> n \<Longrightarrow> n < (d + 1) * 10 ^ k \<Longrightarrow>
   length (to_digits 10 n) = Suc k \<and> hd (to_digits 10 n) = d"
proof (induction k arbitrary: n)
  case 0
  then have "n = d" by simp
  with 0 show ?case by (simp add: to_digits_small)
next
  case (Suc k)
  have p1: "(1::nat) \<le> 10 ^ k" by simp
  have "(10::nat) * 1 \<le> 10 * 10 ^ k" using p1 by (rule mult_le_mono2)
  then have "(10::nat) \<le> 1 * 10 ^ Suc k" by simp
  also have "\<dots> \<le> d * 10 ^ Suc k" using Suc.prems(1) by (rule mult_le_mono1)
  also have "\<dots> \<le> n" by (rule Suc.prems(3))
  finally have ge: "10 \<le> n" .
  have lo: "d * 10 ^ k \<le> n div 10"
  proof -
    have "(d * 10 ^ k) * 10 \<le> n" using Suc.prems(3) by (simp add: mult.assoc mult.commute)
    then show ?thesis by (simp only: less_eq_div_iff_mult_less_eq zero_less_numeral)
  qed
  have hi: "n div 10 < (d + 1) * 10 ^ k"
  proof -
    have "n < ((d + 1) * 10 ^ k) * 10" using Suc.prems(4) by (simp add: mult.assoc mult.commute)
    then show ?thesis by (simp only: div_less_iff_less_mult zero_less_numeral)
  qed
  from Suc.IH [OF Suc.prems(1,2) lo hi]
  have ih: "length (to_digits 10 (n div 10)) = Suc k" "hd (to_digits 10 (n div 10)) = d" by simp_all
  have "to_digits 10 n = to_digits 10 (n div 10) @ [n mod 10]"
    using ge by (simp add: to_digits_step)
  with ih show ?case by (simp add: to_digits_nonempty)
qed

lemma digit_val_sign: "digit_val (CHR ''-'') = None" "digit_val (CHR ''+'') = None"
  "digit_val (CHR ''@'') = None" "digit_val (CHR ''_'') = None"
  by (simp_all add: digit_val_def)

lemma digit_char_not_sign:
  assumes "d < 16"
  shows "digit_char d \<noteq> CHR ''-''" "digit_char d \<noteq> CHR ''+''" "digit_char d \<noteq> CHR ''@''"
  using digit_val_digit_char [OF assms] digit_val_sign by auto

lemma digits_text_chars:
  assumes "2 \<le> b" "b \<le> 16" "c \<in> set (map digit_char (to_digits b n))"
  shows "\<exists>d<b. c = digit_char d"
  using assms to_digits_bound by auto

lemma py_int_digits:
  assumes "s \<noteq> []" "hd s \<noteq> CHR ''-''" "hd s \<noteq> CHR ''+''" "parse_digits b 0 s = Some n"
  shows "py_int b s = Inr (int n)"
  using assms by (cases s) (simp_all add: py_int_def)

lemma digits_text_hd:
  assumes "2 \<le> b" "b \<le> 16"
  shows "hd (map digit_char (to_digits b n)) \<noteq> CHR ''-'' \<and> hd (map digit_char (to_digits b n)) \<noteq> CHR ''+''"
proof -
  have ne: "map digit_char (to_digits b n) \<noteq> []" by (simp add: to_digits_nonempty)
  then have "hd (map digit_char (to_digits b n)) \<in> set (map digit_char (to_digits b n))"
    by (rule hd_in_set)
  then obtain d where "d < b" "hd (map digit_char (to_digits b n)) = digit_char d"
    using digits_text_chars [OF assms] by blast
  moreover have "d < 16" using \<open>d < b\<close> assms(2) by simp
  ultimately show ?thesis using digit_char_not_sign by simp
qed

lemma py_int_py_str: "py_int 10 (py_str i) = Inr i"
proof (cases "i < 0")
  case True
  have ne: "map digit_char (to_digits 10 (nat (- i))) \<noteq> []" by (simp add: to_digits_nonempty)
  have "parse_digits 10 0 (map digit_char (to_digits 10 (nat (- i)))) = Some (nat (- i))"
    by (rule parse_to_digits) simp_all
  with True ne show ?thesis by (simp add: py_int_def py_str_def)
next
  case False
  have ne: "map digit_char (to_digits 10 (nat i)) \<noteq> []" by (simp add: to_digits_nonempty)
  have p: "parse_digits 10 0 (map digit_char (to_digits 10 (nat i))) = Some (nat i)"
    by (rule parse_to_digits) simp_all
  have "py_int 10 (map digit_char (to_digits 10 (nat i))) = Inr (int (nat i))"
    using ne digits_text_hd [of 10 "nat i"] p by (intro py_int_digits) simp_all
  with False show ?thesis by (simp add: py_str_def)
qed

lemma py_str_inj: "py_str i = py_str j \<Longrightarrow> i = j"
proof -
  assume "py_str i = py_str j"
  then have "py_int 10 (py_str i) = py_int 10 (py_str j)" by simp
  then show "i = j" by (simp add: py_int_py_str)
qed

lemma hex_digits_length: "length (to_digits 16 (unat (u :: 128 word))) \<le> 32"
proof -
  have "unat u < 2 ^ 128" using unsigned_less [of u] by simp
  also have "(2::nat) ^ 128 = 16 ^ Suc 31" by simp
  finally have "unat u < 16 ^ Suc 31" .
  then have "length (to_digits 16 (unat u)) \<le> Suc 31"
    by (intro to_digits_length_le) simp_all
  then show ?thesis by simp
qed

lemma uuid_hex_length: "length (uuid_hex u) = 32"
  using hex_digits_length [of u] by (simp add: uuid_hex_def zero_pad_def)

lemma uuid_hex_parse: "parse_digits 16 0 (uuid_hex u) = Some (unat u)"
  by (simp add: uuid_hex_def zero_pad_def parse_leading_zeros parse_to_digits)

lemma uuid_hex_chars: "c \<in> set (uuid_hex u) \<Longrightarrow> \<exists>d<16. c = digit_char d"
proof -
  assume "c \<in> set (uuid_hex u)"
  then consider "c = CHR ''0''" | "c \<in> set (map digit_char (to_digits 16 (unat u)))"
    by (auto simp: uuid_hex_def zero_pad_def)
  then show ?thesis
  proof cases
    case 1
    have "CHR ''0'' = digit_char 0" by code_simp
    with 1 have "(0::nat) < 16 \<and> c = digit_char 0" by simp
    then show ?thesis by blast
  next
    case 2
    then show ?thesis using digits_text_chars [of 16 c "unat u"] by simp
  qed
qed

lemma py_int_uuid_hex: "py_int 16 (uuid_hex u) = Inr (uint u)"
proof -
  have ne: "uuid_hex u \<noteq> []" using uuid_hex_length [of u] by auto
  then have "hd (uuid_hex u) \<in> set (uuid_hex u)" by (rule hd_in_set)
  then obtain d where "d < 16" "hd (uuid_hex u) = digit_char d"
    using uuid_hex_chars by blast
  then have "hd (uuid_hex u) \<noteq> CHR ''-''" "hd (uuid_hex u) \<noteq> CHR ''+''"
    using digit_char_not_sign by simp_all
  then have "py_int 16 (uuid_hex u) = Inr (int (unat u))"
    using ne uuid_hex_parse by (intro py_int_digits)
  then show ?thesis by simp
qed

lemma uuid_hex_inj: "uuid_hex u = uuid_hex v \<Longrightarrow> u = v"
proof -
  assume "uuid_hex u = uuid_hex v"
  then have "parse_digits 16 0 (uuid_hex u) = parse_digits 16 0 (uuid_hex v)" by simp
  then have "unat u = unat v" by (simp add: uuid_hex_parse)
  then show "u = v" by (simp add: word_unat_eq_iff)
qed

lemma py_str_chars: "c \<in> set (py_str i) \<Longrightarrow> c = CHR ''-'' \<or> (\<exists>d<10. c = digit_char d)"
  using digits_text_chars [of 10 c] by (auto simp: py_str_def split: if_splits)

lemma py_str_phone:
  assumes "9000000000 \<le> p" "p < 10000000000"
  shows "length (py_str p) = 10 \<and> hd (py_str p) = CHR ''9'' \<and> take 10 (py_str p) = py_str p"
proof -
  have "9 * 10 ^ 9 \<le> nat p" "nat p < (9 + 1) * 10 ^ 9" using assms by simp_all
  then have "length (to_digits 10 (nat p)) = Suc 9 \<and> hd (to_digits 10 (nat p)) = 9"
    by (intro to_digits_10_shape) simp_all
  moreover have "to_digits 10 (nat p) \<noteq> []" by (rule to_digits_nonempty)
  moreover have "digit_char 9 = CHR ''9''" by code_simp
  ultimately show ?thesis using assms by (simp add: py_str_def hd_map)
qed

lemma phone_range:
  "9000000000 \<le> (9000000000::int) + x mod 1000000000 \<and> 9000000000 + x mod 1000000000 < 10000000000"
proof -
  have "0 \<le> x mod 1000000000" "x mod 1000000000 < 1000000000" by simp_all
  then show ?thesis by linarith
qed

lemma generate_very_unique_phone_number_run:
  "generate_very_unique_phone_number w =
     (Inr (9000000000 + (uint (uuid4_src w (uuid4_calls w)) + clock_src w (clock_reads w)) mod 1000000000),
      w\<lparr>uuid4_calls := Suc (uuid4_calls w), clock_reads := Suc (clock_reads w)\<rparr>)"
proof -
  let ?p = "9000000000 + (uint (uuid4_src w (uuid4_calls w)) + clock_src w (clock_reads w)) mod 1000000000"
  have "take 10 (py_str ?p) = py_str ?p"
    using py_str_phone [of ?p] phone_range by blast
  then have "py_int 10 (take 10 (py_str ?p)) = Inr ?p" by (simp add: py_int_py_str)
  then show ?thesis
    by (simp add: generate_very_unique_phone_number_def bnd_def uuid4_def lift_def time_micros_def
        py_int_uuid_hex)
qed

lemma generate_very_unique_email_run:
  "generate_very_unique_email w =
     (Inr (''testuser_'' @ uuid_hex (uuid4_src w (uuid4_calls w)) @ ''_''
           @ py_str (clock_src w (clock_reads w)) @ ''@example.com''),
      w\<lparr>uuid4_calls := Suc (uuid4_calls w), clock_reads := Suc (clock_reads w)\<rparr>)"
  by (simp add: generate_very_unique_email_def bnd_def uuid4_def time_micros_def ret_def)

lemma digit_char_decimal: "d < 10 \<Longrightarrow> digit_char d \<in> set ''0123456789''"
proof -
  assume "d < 10"
  then have "d \<in> set [0..<10]" by simp
  moreover have "\<forall>d \<in> set [0..<10]. digit_char d \<in> set ''0123456789''" by code_simp
  ultimately show ?thesis by blast
qed

lemma digit_char_hex: "d < 16 \<Longrightarrow> digit_char d \<in> set ''0123456789abcdef''"
proof -
  assume "d < 16"
  then have "d \<in> set [0..<16]" by simp
  moreover have "\<forall>d \<in> set [0..<16]. digit_char d \<in> set ''0123456789abcdef''" by code_simp
  ultimately show ?thesis by blast
qed

lemma py_str_decimal: "0 \<le> i \<Longrightarrow> list_all (\<lambda>c. c \<in> set ''0123456789'') (py_str i)"
proof -
  assume "0 \<le> i"
  then have "py_str i = map digit_char (to_digits 10 (nat i))" by (simp add: py_str_def)
  moreover have "\<And>d. d \<in> set (to_digits 10 (nat i)) \<Longrightarrow> digit_char d \<in> set ''0123456789''"
    using to_digits_bound [of 10] digit_char_decimal by simp
  ultimately show ?thesis by (simp add: list_all_iff)
qed

lemma uuid_hex_all_hex: "list_all (\<lambda>c. c \<in> set ''0123456789abcdef'') (uuid_hex u)"
  unfolding list_all_iff using uuid_hex_chars digit_char_hex by blast

section \<open>The generators\<close>

text \<open>
  Claim C1. For every 128-bit value \<open>u\<close> that \<^verbatim>\<open>uuid.uuid4()\<close> gives and every clock
  reading \<open>t\<close> taken during the call, \<open>generate_very_unique_phone_number\<close> returns
  exactly \<open>9000000000 + (u + t) mod 10^9\<close>. That number lies between 9000000000 and
  9999999999: its decimal text has exactly 10 characters, all digits, the first one
  \<open>9\<close>. The final \<^verbatim>\<open>int(str(phone_number)[:10])\<close> cuts nothing off and reads the same
  number back; it never raises.
\<close>

theorem generate_very_unique_phone_number_correct:
  assumes "uuid4_src w (uuid4_calls w) = u" and "clock_src w (clock_reads w) = t"
  shows "let p = 9000000000 + (uint u + t) mod 10 ^ 9 in
           fst (generate_very_unique_phone_number w) = Inr p
           \<and> 9000000000 \<le> p \<and> p \<le> 9999999999
           \<and> length (py_str p) = 10
           \<and> hd (py_str p) = CHR ''9''
           \<and> list_all (\<lambda>c. c \<in> set ''0123456789'') (py_str p)
           \<and> take 10 (py_str p) = py_str p
           \<and> py_int 10 (take 10 (py_str p)) = Inr p"
proof -
  let ?p = "9000000000 + (uint u + t) mod 1000000000"
  have run: "fst (generate_very_unique_phone_number w) = Inr ?p"
    using assms by (simp add: generate_very_unique_phone_number_run)
  have bounds: "9000000000 \<le> ?p" "?p < 10000000000" using phone_range by blast+
  then have shape: "length (py_str ?p) = 10" "hd (py_str ?p) = CHR ''9''"
    "take 10 (py_str ?p) = py_str ?p"
    using py_str_phone [of ?p] by blast+
  have digits: "list_all (\<lambda>c. c \<in> set ''0123456789'') (py_str ?p)"
    using bounds(1) by (intro py_str_decimal) simp
  have reread: "py_int 10 (take 10 (py_str ?p)) = Inr ?p"
    by (simp only: shape(3) py_int_py_str)
  have le: "?p \<le> 9999999999" using bounds(2) by simp
  show ?thesis
    unfolding Let_def using run bounds(1) le shape digits reread by simp
qed

text \<open>
  The theorem at the first read of \<open>world0\<close>: \<open>u = 255\<close> and \<open>t = 1700000000000000\<close>
  give the number 9000000255.
\<close>

theorem generate_very_unique_phone_number_correct_witness:
  "uuid4_src world0 (uuid4_calls world0) = 255
   \<and> clock_src world0 (clock_reads world0) = 1700000000000000
   \<and> fst (generate_very_unique_phone_number world0) = Inr 9000000255
   \<and> length (py_str 9000000255) = 10
   \<and> hd (py_str 9000000255) = CHR ''9''
   \<and> py_int 10 (take 10 (py_str 9000000255)) = Inr 9000000255"
proof -
  have u: "uuid4_src world0 (uuid4_calls world0) = 255"
    and t: "clock_src world0 (clock_reads world0) = 1700000000000000"
    by (simp_all add: world0_def)
  have p: "9000000000 + (uint (255 :: 128 word) + 1700000000000000) mod 10 ^ 9 = (9000000255 :: int)"
    by simp
  show ?thesis
    using generate_very_unique_phone_number_correct [OF u t] u t
    unfolding Let_def p by blast
qed

subsection \<open>The shape of an email\<close>

lemma at_not_in_uuid_hex: "CHR ''@'' \<notin> set (uuid_hex u)"
  using uuid_hex_chars [of "CHR ''@''" u] digit_char_not_sign(3) by metis

lemma at_not_in_py_str: "CHR ''@'' \<notin> set (py_str t)"
proof
  assume "CHR ''@'' \<in> set (py_str t)"
  then have "CHR ''@'' = CHR ''-'' \<or> (\<exists>d<10. CHR ''@'' = digit_char d)"
    by (rule py_str_chars)
  then obtain d where "d < 10" "CHR ''@'' = digit_char d" by auto
  moreover from this have "d < 16" by simp
  ultimately show False using digit_char_not_sign(3) [of d] by simp
qed

lemma email_local_no_at:
  "CHR ''@'' \<notin> set (''testuser_'' @ uuid_hex u @ ''_'' @ py_str t)"
  using at_not_in_uuid_hex at_not_in_py_str by simp

lemma email_shape:
  assumes "CHR ''@'' \<notin> set loc"
  shows "count_list (loc @ CHR ''@'' # dmn) (CHR ''@'') = Suc (count_list dmn (CHR ''@''))"
    and "takeWhile (\<lambda>c. c \<noteq> CHR ''@'') (loc @ CHR ''@'' # dmn) = loc"
    and "dropWhile (\<lambda>c. c \<noteq> CHR ''@'') (loc @ CHR ''@'' # dmn) = CHR ''@'' # dmn"
proof -
  have "count_list loc (CHR ''@'') = 0" using assms by (simp add: count_list_0_iff)
  then show "count_list (loc @ CHR ''@'' # dmn) (CHR ''@'') = Suc (count_list dmn (CHR ''@''))"
    by simp
  show "takeWhile (\<lambda>c. c \<noteq> CHR ''@'') (loc @ CHR ''@'' # dmn) = loc"
    using assms by (induction loc) auto
  show "dropWhile (\<lambda>c. c \<noteq> CHR ''@'') (loc @ CHR ''@'' # dmn) = CHR ''@'' # dmn"
    using assms by (induction loc) auto
qed

lemma append_same_length:
  "a @ x = b @ y \<Longrightarrow> length a = length b \<Longrightarrow> a = b \<and> x = y"
  by simp

lemma email_inj:
  assumes "''testuser_'' @ uuid_hex u @ ''_'' @ py_str t @ ''@example.com''
           = ''testuser_'' @ uuid_hex u' @ ''_'' @ py_str t' @ ''@example.com''"
  shows "u = u' \<and> t = t'"
proof -
  from assms have "uuid_hex u @ (''_'' @ py_str t @ ''@example.com'')
                 = uuid_hex u' @ (''_'' @ py_str t' @ ''@example.com'')"
    by simp
  moreover have "length (uuid_hex u) = length (uuid_hex u')" by (simp add: uuid_hex_length)
  ultimately have h: "uuid_hex u = uuid_hex u'"
    and r: "''_'' @ py_str t @ ''@example.com'' = ''_'' @ py_str t' @ ''@example.com''"
    by (rule append_same_length [THEN conjunct1], rule append_same_length [THEN conjunct2])
  from r have "py_str t = py_str t'" by simp
  then show ?thesis using h uuid_hex_inj py_str_inj by blast
qed


lemma char_of_digits:
  "char_of (48 :: nat) = CHR ''0''" "char_of (49 :: nat) = CHR ''1''"
  "char_of (50 :: nat) = CHR ''2''" "char_of (51 :: nat) = CHR ''3''"
  "char_of (52 :: nat) = CHR ''4''" "char_of (53 :: nat) = CHR ''5''"
  "char_of (54 :: nat) = CHR ''6''" "char_of (55 :: nat) = CHR ''7''"
  "char_of (56 :: nat) = CHR ''8''" "char_of (57 :: nat) = CHR ''9''"
  "char_of (97 :: nat) = CHR ''a''" "char_of (98 :: nat) = CHR ''b''"
  "char_of (99 :: nat) = CHR ''c''" "char_of (100 :: nat) = CHR ''d''"
  "char_of (101 :: nat) = CHR ''e''" "char_of (102 :: nat) = CHR ''f''"
  by code_simp+

lemma digit_chars:
  "digit_char 0 = CHR ''0''" "digit_char (Suc 0) = CHR ''1''" "digit_char 2 = CHR ''2''"
  "digit_char 3 = CHR ''3''" "digit_char 4 = CHR ''4''" "digit_char 5 = CHR ''5''"
  "digit_char 6 = CHR ''6''" "digit_char 7 = CHR ''7''" "digit_char 8 = CHR ''8''"
  "digit_char 9 = CHR ''9''" "digit_char 10 = CHR ''a''" "digit_char 11 = CHR ''b''"
  "digit_char 12 = CHR ''c''" "digit_char 13 = CHR ''d''" "digit_char 14 = CHR ''e''"
  "digit_char 15 = CHR ''f''"
  by (simp_all add: digit_char_def char_of_digits [symmetric])

lemma py_str_example: "py_str 1700000000000000 = ''1700000000000000''"
  by (simp add: py_str_def to_digits_step to_digits_small digit_chars)

lemma uuid_hex_example: "uuid_hex 255 = ''000000000000000000000000000000ff''"
proof -
  have "map digit_char (to_digits 16 255) = ''ff''"
    by (simp add: to_digits_step to_digits_small digit_chars)
  moreover have "replicate 30 (CHR ''0'') = ''000000000000000000000000000000''"
    by code_simp
  ultimately show ?thesis by (simp add: uuid_hex_def zero_pad_def)
qed


text \<open>
  Claim C7. For every 128-bit value \<open>u\<close> that \<^verbatim>\<open>uuid.uuid4()\<close> gives and every clock
  reading \<open>t\<close> taken during the call, \<open>generate_very_unique_email\<close> returns the text
  \<^verbatim>\<open>testuser_\<close>, then \<open>u\<close> as 32 hexadecimal characters, \<^verbatim>\<open>_\<close>, \<open>t\<close> in decimal and
  \<^verbatim>\<open>@example.com\<close>. Both renderings read back as \<open>u\<close> and \<open>t\<close>. The text has exactly
  one \<^verbatim>\<open>@\<close>, a local part before it that is not empty, and the domain
  \<^verbatim>\<open>example.com\<close> after it. Two calls that read different pairs \<open>(u, t)\<close> return
  different texts.
\<close>

theorem generate_very_unique_email_correct:
  assumes "uuid4_src w (uuid4_calls w) = u" and "clock_src w (clock_reads w) = t"
    and "uuid4_src w' (uuid4_calls w') = u'" and "clock_src w' (clock_reads w') = t'"
  shows "let email = ''testuser_'' @ uuid_hex u @ ''_'' @ py_str t @ ''@example.com'' in
           fst (generate_very_unique_email w) = Inr email
           \<and> length (uuid_hex u) = 32
           \<and> list_all (\<lambda>c. c \<in> set ''0123456789abcdef'') (uuid_hex u)
           \<and> py_int 16 (uuid_hex u) = Inr (uint u)
           \<and> py_int 10 (py_str t) = Inr t
           \<and> count_list email (CHR ''@'') = 1
           \<and> takeWhile (\<lambda>c. c \<noteq> CHR ''@'') email = ''testuser_'' @ uuid_hex u @ ''_'' @ py_str t
           \<and> takeWhile (\<lambda>c. c \<noteq> CHR ''@'') email \<noteq> []
           \<and> dropWhile (\<lambda>c. c \<noteq> CHR ''@'') email = ''@example.com''
           \<and> ((u, t) \<noteq> (u', t') \<longrightarrow>
                fst (generate_very_unique_email w) \<noteq> fst (generate_very_unique_email w'))"
proof -
  let ?loc = "''testuser_'' @ uuid_hex u @ ''_'' @ py_str t"
  let ?email = "''testuser_'' @ uuid_hex u @ ''_'' @ py_str t @ ''@example.com''"
  have split: "?email = ?loc @ CHR ''@'' # ''example.com''" by simp
  have run: "fst (generate_very_unique_email w) = Inr ?email"
    using assms(1,2) by (simp add: generate_very_unique_email_run)
  have run': "fst (generate_very_unique_email w')
              = Inr (''testuser_'' @ uuid_hex u' @ ''_'' @ py_str t' @ ''@example.com'')"
    using assms(3,4) by (simp add: generate_very_unique_email_run)
  have noat: "CHR ''@'' \<notin> set ?loc" by (rule email_local_no_at)
  have cnt: "count_list ?email (CHR ''@'') = 1"
    unfolding split email_shape(1) [OF noat] by simp
  have tw: "takeWhile (\<lambda>c. c \<noteq> CHR ''@'') ?email = ?loc"
    unfolding split by (rule email_shape(2) [OF noat])
  have dw: "dropWhile (\<lambda>c. c \<noteq> CHR ''@'') ?email = ''@example.com''"
    unfolding split by (rule email_shape(3) [OF noat])
  have ne: "takeWhile (\<lambda>c. c \<noteq> CHR ''@'') ?email \<noteq> []"
    unfolding tw by simp
  have differ: "(u, t) \<noteq> (u', t') \<longrightarrow>
      fst (generate_very_unique_email w) \<noteq> fst (generate_very_unique_email w')"
  proof
    assume "(u, t) \<noteq> (u', t')"
    then have "\<not> (u = u' \<and> t = t')" by simp
    then have "?email \<noteq> ''testuser_'' @ uuid_hex u' @ ''_'' @ py_str t' @ ''@example.com''"
      using email_inj [of u t u' t'] by blast
    then show "fst (generate_very_unique_email w) \<noteq> fst (generate_very_unique_email w')"
      unfolding run run' by simp
  qed
  have len: "length (uuid_hex u) = 32" by (rule uuid_hex_length)
  have hex: "list_all (\<lambda>c. c \<in> set ''0123456789abcdef'') (uuid_hex u)"
    by (rule uuid_hex_all_hex)
  have rd16: "py_int 16 (uuid_hex u) = Inr (uint u)" by (rule py_int_uuid_hex)
  have rd10: "py_int 10 (py_str t) = Inr t" by (rule py_int_py_str)
  show ?thesis
    unfolding Let_def by (intro conjI) (fact run len hex rd16 rd10 cnt tw ne dw differ)+
qed

text \<open>
  The theorem at two consecutive calls from \<open>world0\<close>: the first reads \<open>(255,
  1700000000000000)\<close>, the second \<open>(256, 1700000000000001)\<close>.
\<close>

theorem generate_very_unique_email_correct_witness:
  "uuid4_src world0 (uuid4_calls world0) = 255
   \<and> clock_src world0 (clock_reads world0) = 1700000000000000
   \<and> uuid4_src (snd (generate_very_unique_email world0))
        (uuid4_calls (snd (generate_very_unique_email world0))) = 256
   \<and> clock_src (snd (generate_very_unique_email world0))
        (clock_reads (snd (generate_very_unique_email world0))) = 1700000000000001
   \<and> fst (generate_very_unique_email world0)
       = Inr ''testuser_000000000000000000000000000000ff_1700000000000000@example.com''
   \<and> count_list ''testuser_000000000000000000000000000000ff_1700000000000000@example.com''
         (CHR ''@'') = 1
   \<and> fst (generate_very_unique_email world0)
       \<noteq> fst (generate_very_unique_email (snd (generate_very_unique_email world0)))"
proof -
  let ?w' = "snd (generate_very_unique_email world0)"
  have u: "uuid4_src world0 (uuid4_calls world0) = 255"
    and t: "clock_src world0 (clock_reads world0) = 1700000000000000"
    by (simp_all add: world0_def)
  have u': "uuid4_src ?w' (uuid4_calls ?w') = 256"
    and t': "clock_src ?w' (clock_reads ?w') = 1700000000000001"
    by (simp_all add: generate_very_unique_email_run world0_def)
  have rendered: "''testuser_'' @ uuid_hex 255 @ ''_'' @ py_str 1700000000000000 @ ''@example.com''
      = ''testuser_000000000000000000000000000000ff_1700000000000000@example.com''"
    by (simp add: py_str_example uuid_hex_example)
  have ne: "((255 :: 128 word), (1700000000000000 :: int)) \<noteq> (256, 1700000000000001)" by simp
  show ?thesis
    using generate_very_unique_email_correct [OF u t u' t'] u t u' t' ne
    unfolding Let_def rendered by blast
qed

section \<open>Sending a request\<close>

text \<open>
  What one call does, by the ways it can go: \<^verbatim>\<open>json.dumps\<close> raises on the body, the
  call of \<^verbatim>\<open>requests.post\<close> raises, or a response comes back and its body is read.
\<close>

lemmas prog_defs =
  ret_def py_raise_def bnd_def lift_def try_except_def py_print_def py_assert_def

lemma int_small: "\<bar>i\<bar> < 10 ^ 10 \<Longrightarrow> \<not> int_too_long i"
proof -
  assume "\<bar>i\<bar> < 10 ^ 10"
  moreover have "(10 :: int) ^ 10 \<le> 10 ^ 4300" by (rule power_increasing) simp_all
  ultimately show ?thesis unfolding int_too_long_def by linarith
qed


lemma json_dumps_Inr:
  "(json_dumps ind v = Inr s) = (dumps_error v = None \<and> s = json_encode ind 0 v)"
  by (auto simp: json_dumps_def split: option.splits)

lemma json_dumps_Inl: "(json_dumps ind v = Inl e) = (dumps_error v = Some e)"
  by (auto simp: json_dumps_def split: option.splits)

lemma send_request_fst:
  "fst (send_request hdrs data w) =
     (case dumps_error data of
        Some e \<Rightarrow> if is_RequestException e then Inr None else Inl e
      | None \<Rightarrow>
          (case network w (length (post_calls w))
                  \<lparr>req_url = BASE_URL, req_headers = hdrs, req_data = json_encode None 0 data,
                   req_timeout = 15\<rparr> of
             Raised e \<Rightarrow> if is_RequestException e then Inr None else Inl e
           | Received r \<Rightarrow>
               (case (if content r = [] then None
                      else case json_result r of Inl e \<Rightarrow> Some e | Inr d \<Rightarrow> dumps_error d) of
                  None \<Rightarrow> Inr (Some r)
                | Some e \<Rightarrow>
                    if is_JSONDecodeError e then Inr (Some r)
                    else if is_RequestException e then Inr None
                    else Inl e)))"
  by (simp add: send_request_def prog_defs requests_post_def response_json_def json_dumps_def
      Let_def split: option.split sum.split post_outcome.split)

lemma send_request_frame:
  "uuid4_src (snd (send_request hdrs data w)) = uuid4_src w
   \<and> uuid4_calls (snd (send_request hdrs data w)) = uuid4_calls w
   \<and> clock_src (snd (send_request hdrs data w)) = clock_src w
   \<and> clock_reads (snd (send_request hdrs data w)) = clock_reads w
   \<and> network (snd (send_request hdrs data w)) = network w"
  by (simp add: send_request_def prog_defs requests_post_def response_json_def json_dumps_def
      Let_def split: option.split sum.split post_outcome.split)

lemma send_request_post_calls:
  "post_calls (snd (send_request hdrs data w)) = post_calls w @
     (case json_dumps None data of
        Inr body \<Rightarrow>
          [\<lparr>req_url = BASE_URL, req_headers = hdrs, req_data = body, req_timeout = 15\<rparr>]
      | Inl e \<Rightarrow> [])"
  by (simp add: send_request_def prog_defs requests_post_def response_json_def json_dumps_def
      Let_def split: option.split sum.split post_outcome.split)

lemma send_request_stdout:
  "\<exists>xs. stdout (snd (send_request hdrs data w)) = stdout w @ xs"
  by (simp add: send_request_def prog_defs requests_post_def response_json_def json_dumps_def
      Let_def split: option.split sum.split post_outcome.split)

lemma send_request_raised:
  assumes "dumps_error data = None"
    and "network w (length (post_calls w))
           \<lparr>req_url = BASE_URL, req_headers = hdrs, req_data = json_encode None 0 data,
            req_timeout = 15\<rparr> = Raised e"
    and "is_RequestException e"
  shows "send_request hdrs data w =
     (Inr None,
      w\<lparr>post_calls := post_calls w @
           [\<lparr>req_url = BASE_URL, req_headers = hdrs, req_data = json_encode None 0 data,
             req_timeout = 15\<rparr>],
        stdout := stdout w @
         [CHR 0x0A # ''--- Sending Request ---'',
          ''Request URL: '' @ BASE_URL,
          ''Request Headers: '' @ py_repr_dict hdrs,
          ''Request Data: '' @ json_encode (Some 2) 0 data,
          CHR 0x0A # ''--- Request Failed ---'',
          ''Request failed due to exception: '' @ exn_message e,
          ''----------------------'']\<rparr>)"
  using assms by (simp add: send_request_def prog_defs requests_post_def json_dumps_def)

lemma send_request_received:
  assumes "dumps_error data = None"
    and "network w (length (post_calls w))
           \<lparr>req_url = BASE_URL, req_headers = hdrs, req_data = json_encode None 0 data,
            req_timeout = 15\<rparr> = Received r"
    and "content r = [] \<or> (\<exists>d. json_result r = Inr d \<and> dumps_error d = None)
         \<or> (\<exists>e. json_result r = Inl e \<and> is_JSONDecodeError e)"
  shows "send_request hdrs data w =
     (Inr (Some r),
      w\<lparr>post_calls := post_calls w @
           [\<lparr>req_url = BASE_URL, req_headers = hdrs, req_data = json_encode None 0 data,
             req_timeout = 15\<rparr>],
        stdout := stdout w @
         [CHR 0x0A # ''--- Sending Request ---'',
          ''Request URL: '' @ BASE_URL,
          ''Request Headers: '' @ py_repr_dict hdrs,
          ''Request Data: '' @ json_encode (Some 2) 0 data,
          ''Response Status: '' @ py_str (status_code r),
          (if content r = [] then ''Response Body: '' @ json_encode (Some 2) 0 (PStr ''No Content'')
           else case json_result r of
                  Inl e \<Rightarrow> ''Response Body (Non-JSON): '' @ body_text r
                | Inr d \<Rightarrow> ''Response Body: '' @ json_encode (Some 2) 0 d),
          ''-----------------------'']\<rparr>)"
  using assms
  by (auto simp add: send_request_def prog_defs requests_post_def response_json_def json_dumps_def)

lemma send_request_received_length:
  assumes "dumps_error data = None"
    and "network w (length (post_calls w))
           \<lparr>req_url = BASE_URL, req_headers = hdrs, req_data = json_encode None 0 data,
            req_timeout = 15\<rparr> = Received r"
    and "content r = [] \<or> (\<exists>d. json_result r = Inr d \<and> dumps_error d = None)
         \<or> (\<exists>e. json_result r = Inl e \<and> is_JSONDecodeError e)"
  shows "length (stdout (snd (send_request hdrs data w))) = length (stdout w) + 7"
  unfolding send_request_received [OF assms] by simp

lemma send_request_refused:
  assumes "network w = network world0" and "dumps_error data = None"
  shows "fst (send_request hdrs data w) = Inr None"
proof -
  have n: "network w (length (post_calls w))
           \<lparr>req_url = BASE_URL, req_headers = hdrs, req_data = json_encode None 0 data,
            req_timeout = 15\<rparr> = Raised (RequestException ''Connection refused'')"
    using assms(1) by (simp add: world0_def)
  show ?thesis unfolding send_request_raised [OF assms(2) n, simplified] by simp
qed

lemma send_request_answering:
  assumes "network w = network (world_answering r)" and "dumps_error data = None"
    and "content r = [] \<or> (\<exists>d. json_result r = Inr d \<and> dumps_error d = None)
         \<or> (\<exists>e. json_result r = Inl e \<and> is_JSONDecodeError e)"
  shows "fst (send_request hdrs data w) = Inr (Some r)"
proof -
  have n: "network w (length (post_calls w))
           \<lparr>req_url = BASE_URL, req_headers = hdrs, req_data = json_encode None 0 data,
            req_timeout = 15\<rparr> = Received r"
    using assms(1) by (simp add: world_answering_def)
  show ?thesis unfolding send_request_received [OF assms(2) n assms(3)] by simp
qed

text \<open>
  Claim C2. For every headers mapping and body: when the call of \<^verbatim>\<open>requests.post\<close>
  with the serialised body raises a \<open>RequestException\<close> (a connection error, a
  timeout, any subclass), \<open>send_request\<close> catches it, prints the three lines of the
  failure report with the exception's message, and returns \<open>None\<close>; no
  \<open>RequestException\<close> reaches the caller. (A body that cannot be serialised never
  reaches the call.)
\<close>

theorem send_request_transport_failure:
  assumes "json_dumps None data = Inr body"
    and "network w (length (post_calls w))
           \<lparr>req_url = BASE_URL, req_headers = hdrs, req_data = body, req_timeout = 15\<rparr>
         = Raised e"
    and "is_RequestException e"
  shows "fst (send_request hdrs data w) = Inr None
         \<and> fst (send_request hdrs data w) \<noteq> Inl (RequestException m')
         \<and> (\<exists>pretty. json_dumps (Some 2) data = Inr pretty
              \<and> stdout (snd (send_request hdrs data w)) = stdout w @
                  [CHR 0x0A # ''--- Sending Request ---'',
                   ''Request URL: '' @ BASE_URL,
                   ''Request Headers: '' @ py_repr_dict hdrs,
                   ''Request Data: '' @ pretty,
                   CHR 0x0A # ''--- Request Failed ---'',
                   ''Request failed due to exception: '' @ exn_message e,
                   ''----------------------''])"
proof -
  from assms(1) have ok: "dumps_error data = None" and body: "body = json_encode None 0 data"
    by (simp_all add: json_dumps_Inr)
  have pretty: "json_dumps (Some 2) data = Inr (json_encode (Some 2) 0 data)"
    using ok by (simp add: json_dumps_Inr)
  show ?thesis
    unfolding send_request_raised [OF ok assms(2) [unfolded body] assms(3)] pretty by simp
qed

text \<open>
  The theorem in \<open>world0\<close>, where every connection is refused.
\<close>

theorem send_request_transport_failure_witness:
  "json_dumps None (PInt 7) = Inr (json_encode None 0 (PInt 7))
   \<and> network world0 (length (post_calls world0))
        \<lparr>req_url = BASE_URL, req_headers = headers_2_1,
         req_data = json_encode None 0 (PInt 7), req_timeout = 15\<rparr>
       = Raised (RequestException ''Connection refused'')
   \<and> is_RequestException (RequestException ''Connection refused'')
   \<and> fst (send_request headers_2_1 (PInt 7) world0) = Inr None
   \<and> stdout (snd (send_request headers_2_1 (PInt 7) world0)) ! 5
       = ''Request failed due to exception: Connection refused''"
proof -
  have small: "dumps_error (PInt 7) = None" using int_small [of 7] by simp
  have d: "json_dumps None (PInt 7) = Inr (json_encode None 0 (PInt 7))"
    using small by (simp add: json_dumps_Inr)
  have n: "network world0 (length (post_calls world0))
        \<lparr>req_url = BASE_URL, req_headers = headers_2_1,
         req_data = json_encode None 0 (PInt 7), req_timeout = 15\<rparr>
       = Raised (RequestException ''Connection refused'')"
    by (simp add: world0_def)
  have c: "is_RequestException (RequestException ''Connection refused'')" by simp
  have e: "stdout world0 = []" by (simp add: world0_def)
  from send_request_transport_failure [where m' = "[]", OF d n c]
  have "fst (send_request headers_2_1 (PInt 7) world0) = Inr None"
    and "stdout (snd (send_request headers_2_1 (PInt 7) world0)) ! 5
       = ''Request failed due to exception: Connection refused''"
    by (auto simp: e)
  then show ?thesis using d n c by blast
qed











section \<open>The test cases\<close>

text \<open>
  Each block of assertions, by cases of the response it is given; then each test case
  up to the request it sends.
\<close>

lemma bnd_run_Inr: "m w = (Inr x, w') \<Longrightarrow> bnd m f w = f x w'"
  by (simp add: bnd_def)


lemma bnd_same_run: "m w = m' w' \<Longrightarrow> bnd m k w = bnd m' k w'"
  by (simp add: bnd_def)

lemma bnd_post_calls:
  assumes "\<And>x w'. post_calls (snd (k x w')) = post_calls w'"
  shows "post_calls (snd (bnd m k w)) = post_calls (snd (m w))"
proof (cases "m w")
  case (Pair res w')
  then show ?thesis by (cases res) (simp_all add: bnd_def assms)
qed

lemma pair_of_fst: "fst x = a \<Longrightarrow> x = (a, snd x)"
  by (cases x) simp

lemma nth_after: "length xs = n \<Longrightarrow> (xs @ a # ys) ! n = a"
  by (simp add: nth_append)

lemma tc_1_1_asserts_run:
  "tc_1_1_asserts ro w =
     (case ro of
        None \<Rightarrow>
          (Inl (AssertionError
             ''TC 1.1 Failed: Request did not get a response. Connection likely failed or timed out.''), w)
      | Some r \<Rightarrow>
          if status_code r = 200 \<or> status_code r = 201 then
            (Inr (), w\<lparr>stdout := stdout w @
               [''TC 1.1: PASSED (User created successfully - Status 200/201)'',
                ''--- Test Case 1.1 Complete ---'' @ [CHR 0x0A]]\<rparr>)
          else if is_400_user_exists r then
            (Inr (), w\<lparr>stdout := stdout w @
               [''TC 1.1: PASSED (User creation failed as expected: User already exists - Status 400)'',
                ''--- Test Case 1.1 Complete ---'' @ [CHR 0x0A]]\<rparr>)
          else
            (Inl (AssertionError
               (''TC 1.1 Failed: Unexpected status code. Expected 200/201 or 400 (user exists), ''
                @ ''got '' @ py_str (status_code r) @ ''. Response: '' @ body_text r)), w))"
  by (simp add: tc_1_1_asserts_def prog_defs split: option.split)

lemma tc_2_1_asserts_run:
  "tc_2_1_asserts ro w =
     (case ro of
        None \<Rightarrow>
          (Inl (AssertionError
             ''TC 2.1 Failed: Request did not get a response. Connection likely failed or timed out.''), w)
      | Some r \<Rightarrow>
          if status_code r = 401 then
            (Inr (), w\<lparr>stdout := stdout w @
               [''TC 2.1: PASSED'', ''--- Test Case 2.1 Complete ---'' @ [CHR 0x0A]]\<rparr>)
          else
            (Inl (AssertionError
               (''TC 2.1 Failed: Expected 401, got '' @ py_str (status_code r)
                @ ''. Response: '' @ body_text r)), w))"
  by (simp add: tc_2_1_asserts_def prog_defs split: option.split)

lemma tc_3_1_setup_asserts_run:
  "tc_3_1_setup_asserts ro w =
     (case ro of
        None \<Rightarrow>
          (Inl (AssertionError
             ''TC 3.1 Setup Failed: Request did not get a response. Connection likely failed or timed out.''), w)
      | Some r \<Rightarrow>
          if status_code r = 200 \<or> status_code r = 201 then
            (Inr (), w\<lparr>stdout := stdout w @
               [''--- TC 3.1 Setup Complete (User created for duplication) ---'']\<rparr>)
          else if is_400_user_exists r then
            (Inr (), w\<lparr>stdout := stdout w @
               [''--- TC 3.1 Setup Complete (User already exists for duplication) ---'']\<rparr>)
          else
            (Inl (AssertionError
               (''TC 3.1 Setup Failed: Expected 200/201 or 400 (user exists), ''
                @ ''got '' @ py_str (status_code r) @ ''. Response: '' @ body_text r)), w))"
  by (simp add: tc_3_1_setup_asserts_def prog_defs split: option.split)

lemma tc_3_1_asserts_run:
  "tc_3_1_asserts ro w =
     (case ro of
        None \<Rightarrow>
          (Inl (AssertionError
             ''TC 3.1 Failed: Request did not get a response. Connection likely failed or timed out.''), w)
      | Some r \<Rightarrow>
          if status_code r = 400 then
            (Inr (), w\<lparr>stdout := stdout w @
               [''TC 3.1: PASSED'', ''--- Test Case 3.1 Complete ---'' @ [CHR 0x0A]]\<rparr>)
          else
            (Inl (AssertionError
               (''TC 3.1 Failed: Expected 400, got '' @ py_str (status_code r)
                @ ''. Response: '' @ body_text r)), w))"
  by (simp add: tc_3_1_asserts_def prog_defs response_ok_def split: option.split)

lemma tc_1_1_asserts_post_calls: "post_calls (snd (tc_1_1_asserts ro w)) = post_calls w"
  by (simp add: tc_1_1_asserts_run split: option.split)

lemma tc_2_1_asserts_post_calls: "post_calls (snd (tc_2_1_asserts ro w)) = post_calls w"
  by (simp add: tc_2_1_asserts_run split: option.split)

lemma tc_3_1_setup_asserts_post_calls: "post_calls (snd (tc_3_1_setup_asserts ro w)) = post_calls w"
  by (simp add: tc_3_1_setup_asserts_run split: option.split)

lemma tc_3_1_asserts_post_calls: "post_calls (snd (tc_3_1_asserts ro w)) = post_calls w"
  by (simp add: tc_3_1_asserts_run split: option.split)

lemma tc_3_1_setup_asserts_frame:
  "uuid4_src (snd (tc_3_1_setup_asserts ro w)) = uuid4_src w
   \<and> uuid4_calls (snd (tc_3_1_setup_asserts ro w)) = uuid4_calls w
   \<and> clock_src (snd (tc_3_1_setup_asserts ro w)) = clock_src w
   \<and> clock_reads (snd (tc_3_1_setup_asserts ro w)) = clock_reads w"
  by (simp add: tc_3_1_setup_asserts_run split: option.split)

lemma tc_3_1_setup_asserts_passes:
  "status_code r \<in> {200, 201}
     \<or> status_code r = 400 \<and> content r \<noteq> []
        \<and> py_in ''user already exists'' (py_lower (body_text r))
   \<Longrightarrow> fst (tc_3_1_setup_asserts (Some r) w) = Inr ()"
  by (auto simp add: tc_3_1_setup_asserts_run is_400_user_exists_def)

lemma tc_3_1_asserts_fst: "fst (tc_3_1_asserts ro w) = fst (tc_3_1_asserts ro w')"
  by (simp add: tc_3_1_asserts_run split: option.split)

lemma phone_ok: "\<not> int_too_long (9000000000 + x mod 1000000000)"
proof -
  have "\<bar>9000000000 + x mod 1000000000\<bar> < (10 :: int) ^ 10"
    using phone_range [of x] by simp
  then show ?thesis by (rule int_small)
qed

lemma data_1_1_ok: "dumps_error (data_1_1 (9000000000 + x mod 1000000000) e) = None"
  by (simp add: data_1_1_def phone_ok)

lemma data_2_1_ok: "dumps_error (data_2_1 (9000000000 + x mod 1000000000) e) = None"
  by (simp add: data_2_1_def phone_ok)

lemma setup_data_ok: "dumps_error (setup_data (9000000000 + x mod 1000000000) e) = None"
  by (simp add: setup_data_def phone_ok)

lemma data_3_1_ok: "dumps_error (data_3_1 (9000000000 + x mod 1000000000) e) = None"
  by (simp add: data_3_1_def phone_ok)

lemma tc_1_1_prefix:
  "tc_1_1 w =
     bnd (send_request headers_1_1
            (data_1_1
               (9000000000 + (uint (uuid4_src w (uuid4_calls w)) + clock_src w (clock_reads w)) mod 1000000000)
               (''testuser_'' @ uuid_hex (uuid4_src w (Suc (uuid4_calls w))) @ ''_''
                @ py_str (clock_src w (Suc (clock_reads w))) @ ''@example.com'')))
       tc_1_1_asserts
       (w\<lparr>stdout := stdout w @ [CHR 0x0A # ''=== Test Case 1.1: User Creation Attempt ===''],
          uuid4_calls := Suc (Suc (uuid4_calls w)), clock_reads := Suc (Suc (clock_reads w))\<rparr>)"
  unfolding tc_1_1_def
  by (simp add: bnd_def [of "py_print _"] bnd_def [of generate_very_unique_phone_number]
      bnd_def [of generate_very_unique_email] py_print_def
      generate_very_unique_phone_number_run generate_very_unique_email_run)

lemma tc_2_1_prefix:
  "tc_2_1 w =
     bnd (send_request headers_2_1
            (data_2_1
               (9000000000 + (uint (uuid4_src w (uuid4_calls w)) + clock_src w (clock_reads w)) mod 1000000000)
               (''testuser_'' @ uuid_hex (uuid4_src w (Suc (uuid4_calls w))) @ ''_''
                @ py_str (clock_src w (Suc (clock_reads w))) @ ''@example.com'')))
       tc_2_1_asserts
       (w\<lparr>stdout := stdout w @ [CHR 0x0A # ''=== Test Case 2.1: Missing roll-number Header ===''],
          uuid4_calls := Suc (Suc (uuid4_calls w)), clock_reads := Suc (Suc (clock_reads w))\<rparr>)"
  unfolding tc_2_1_def
  by (simp add: bnd_def [of "py_print _"] bnd_def [of generate_very_unique_phone_number]
      bnd_def [of generate_very_unique_email] py_print_def
      generate_very_unique_phone_number_run generate_very_unique_email_run)

lemma tc_3_1_prefix:
  "tc_3_1 w =
     bnd (send_request setup_headers
            (setup_data
               (9000000000 + (uint (uuid4_src w (uuid4_calls w)) + clock_src w (clock_reads w)) mod 1000000000)
               (''testuser_'' @ uuid_hex (uuid4_src w (Suc (uuid4_calls w))) @ ''_''
                @ py_str (clock_src w (Suc (clock_reads w))) @ ''@example.com'')))
       (\<lambda>setup_response.
          bnd (tc_3_1_setup_asserts setup_response) (\<lambda>_.
          bnd generate_very_unique_email (\<lambda>email.
          bnd (send_request headers_3_1
                 (data_3_1
                    (9000000000 + (uint (uuid4_src w (uuid4_calls w)) + clock_src w (clock_reads w)) mod 1000000000)
                    email)) tc_3_1_asserts)))
       (w\<lparr>stdout := stdout w @
            [CHR 0x0A # ''=== Test Case 3.1: Duplicate phoneNumber ==='',
             CHR 0x0A # ''--- TC 3.1 Setup: Creating a user for phone number duplication ---''],
          uuid4_calls := Suc (Suc (uuid4_calls w)), clock_reads := Suc (Suc (clock_reads w))\<rparr>)"
  unfolding tc_3_1_def
  by (simp add: bnd_def [of "py_print _"] bnd_def [of generate_very_unique_phone_number]
      bnd_def [of generate_very_unique_email] py_print_def
      generate_very_unique_phone_number_run generate_very_unique_email_run)

lemma tc_1_1_post_calls:
  "post_calls (snd (tc_1_1 w)) = post_calls w @
     [\<lparr>req_url = BASE_URL, req_headers = headers_1_1,
       req_data = json_encode None 0
         (data_1_1
            (9000000000 + (uint (uuid4_src w (uuid4_calls w)) + clock_src w (clock_reads w)) mod 1000000000)
            (''testuser_'' @ uuid_hex (uuid4_src w (Suc (uuid4_calls w))) @ ''_''
             @ py_str (clock_src w (Suc (clock_reads w))) @ ''@example.com'')),
       req_timeout = 15\<rparr>]"
  unfolding tc_1_1_prefix bnd_post_calls [of tc_1_1_asserts, OF tc_1_1_asserts_post_calls]
    send_request_post_calls
  by (simp add: json_dumps_def data_1_1_ok)

lemma tc_2_1_post_calls:
  "post_calls (snd (tc_2_1 w)) = post_calls w @
     [\<lparr>req_url = BASE_URL, req_headers = headers_2_1,
       req_data = json_encode None 0
         (data_2_1
            (9000000000 + (uint (uuid4_src w (uuid4_calls w)) + clock_src w (clock_reads w)) mod 1000000000)
            (''testuser_'' @ uuid_hex (uuid4_src w (Suc (uuid4_calls w))) @ ''_''
             @ py_str (clock_src w (Suc (clock_reads w))) @ ''@example.com'')),
       req_timeout = 15\<rparr>]"
  unfolding tc_2_1_prefix bnd_post_calls [of tc_2_1_asserts, OF tc_2_1_asserts_post_calls]
    send_request_post_calls
  by (simp add: json_dumps_def data_2_1_ok)

subsection \<open>Every piece keeps the network and raises little\<close>

lemma step_ok_bnd:
  assumes "step_ok m" and "\<And>x. step_ok (f x)"
  shows "step_ok (bnd m f)"
  unfolding step_ok_def
proof (intro allI)
  fix w
  obtain res w' where run: "m w = (res, w')" by (cases "m w")
  from assms(1) run have n1: "network w' = network w"
    and s1: "\<exists>xs. stdout w' = stdout w @ xs"
    and e1: "\<forall>e. res = Inl e \<longrightarrow> script_exception (network w) e"
    unfolding step_ok_def by (metis snd_conv, metis snd_conv, metis fst_conv)
  show "network (snd (bnd m f w)) = network w
        \<and> (\<exists>xs. stdout (snd (bnd m f w)) = stdout w @ xs)
        \<and> (\<forall>e. fst (bnd m f w) = Inl e \<longrightarrow> script_exception (network w) e)"
  proof (cases res)
    case (Inl e)
    then have "bnd m f w = (Inl e, w')" using run by (simp add: bnd_def)
    then show ?thesis using n1 s1 e1 Inl by simp
  next
    case (Inr x)
    then have b: "bnd m f w = f x w'" using run by (simp add: bnd_def)
    from assms(2) [of x] have n2: "network (snd (f x w')) = network w'"
      and s2: "\<exists>xs. stdout (snd (f x w')) = stdout w' @ xs"
      and e2: "\<forall>e. fst (f x w') = Inl e \<longrightarrow> script_exception (network w') e"
      unfolding step_ok_def by blast+
    from s1 s2 have "\<exists>xs. stdout (snd (f x w')) = stdout w @ xs" by auto
    then show ?thesis unfolding b using n1 n2 e2 by simp
  qed
qed

lemma step_ok_at:
  assumes "step_ok m" and "network w' = network w" and "\<exists>xs. stdout w' = stdout w @ xs"
  shows "network (snd (m w')) = network w
         \<and> (\<exists>xs. stdout (snd (m w')) = stdout w @ xs)
         \<and> (\<forall>e. fst (m w') = Inl e \<longrightarrow> script_exception (network w) e)"
proof -
  from assms(1) have n: "network (snd (m w')) = network w'"
    and s: "\<exists>xs. stdout (snd (m w')) = stdout w' @ xs"
    and e: "\<forall>e. fst (m w') = Inl e \<longrightarrow> script_exception (network w') e"
    unfolding step_ok_def by blast+
  from s assms(3) have "\<exists>xs. stdout (snd (m w')) = stdout w @ xs" by auto
  then show ?thesis using n e assms(2) by simp
qed

lemma step_ok_print: "step_ok (py_print l)"
  by (simp add: step_ok_def py_print_def)

lemma step_ok_email: "step_ok generate_very_unique_email"
  by (simp add: step_ok_def generate_very_unique_email_run)

lemma send_request_exception:
  assumes "dumps_error data = None" and "fst (send_request hdrs data w) = Inl e"
  shows "library_exception (network w) e"
proof -
  let ?c = "\<lparr>req_url = BASE_URL, req_headers = hdrs, req_data = json_encode None 0 data,
             req_timeout = 15\<rparr>"
  show ?thesis
  proof (cases "network w (length (post_calls w)) ?c")
    case (Raised x)
    with assms have "x = e" "\<not> is_RequestException e"
      by (auto simp: send_request_fst split: if_splits)
    with Raised show ?thesis unfolding library_exception_def by blast
  next
    case (Received r)
    with assms have c: "content r \<noteq> []"
      by (auto simp: send_request_fst split: if_splits)
    from assms Received c
    have "(json_result r = Inl e \<or> (\<exists>d. json_result r = Inr d \<and> json_dumps (Some 2) d = Inl e))
          \<and> \<not> is_JSONDecodeError e \<and> \<not> is_RequestException e"
      by (auto simp: send_request_fst json_dumps_Inl split: if_splits sum.splits option.splits)
    with Received c show ?thesis unfolding library_exception_def by blast
  qed
qed

lemma step_ok_send_request: "dumps_error data = None \<Longrightarrow> step_ok (send_request hdrs data)"
  unfolding step_ok_def script_exception_def
  using send_request_frame send_request_stdout send_request_exception by blast

lemma step_ok_tc_1_1_asserts: "step_ok (tc_1_1_asserts ro)"
  by (simp add: step_ok_def script_exception_def tc_1_1_asserts_run split: option.split)

lemma step_ok_tc_2_1_asserts: "step_ok (tc_2_1_asserts ro)"
  by (simp add: step_ok_def script_exception_def tc_2_1_asserts_run split: option.split)

lemma step_ok_tc_3_1_setup_asserts: "step_ok (tc_3_1_setup_asserts ro)"
  by (simp add: step_ok_def script_exception_def tc_3_1_setup_asserts_run split: option.split)

lemma step_ok_tc_3_1_asserts: "step_ok (tc_3_1_asserts ro)"
  by (simp add: step_ok_def script_exception_def tc_3_1_asserts_run split: option.split)

lemma step_ok_tc_1_1: "step_ok tc_1_1"
  unfolding step_ok_def [of tc_1_1] tc_1_1_prefix
  by (intro allI step_ok_at step_ok_bnd step_ok_send_request data_1_1_ok step_ok_tc_1_1_asserts)
    simp_all

lemma step_ok_tc_2_1: "step_ok tc_2_1"
  unfolding step_ok_def [of tc_2_1] tc_2_1_prefix
  by (intro allI step_ok_at step_ok_bnd step_ok_send_request data_2_1_ok step_ok_tc_2_1_asserts)
    simp_all

lemma step_ok_tc_3_1: "step_ok tc_3_1"
  unfolding step_ok_def [of tc_3_1] tc_3_1_prefix
  by (intro allI step_ok_at step_ok_bnd step_ok_send_request setup_data_ok data_3_1_ok
      step_ok_tc_3_1_setup_asserts step_ok_tc_3_1_asserts step_ok_email)
    simp_all


lemma tc_2_1_first_line:
  assumes "\<And>x. step_ok (k x)"
  shows "\<exists>rest. stdout (snd (bnd tc_2_1 k w)) =
     stdout w @ (CHR 0x0A # ''=== Test Case 2.1: Missing roll-number Header ==='') # rest"
proof -
  let ?w = "w\<lparr>stdout := stdout w @ [CHR 0x0A # ''=== Test Case 2.1: Missing roll-number Header ===''],
          uuid4_calls := Suc (Suc (uuid4_calls w)), clock_reads := Suc (Suc (clock_reads w))\<rparr>"
  let ?m = "bnd (send_request headers_2_1
            (data_2_1
               (9000000000 + (uint (uuid4_src w (uuid4_calls w)) + clock_src w (clock_reads w)) mod 1000000000)
               (''testuser_'' @ uuid_hex (uuid4_src w (Suc (uuid4_calls w))) @ ''_''
                @ py_str (clock_src w (Suc (clock_reads w))) @ ''@example.com'')))
       tc_2_1_asserts"
  have eq: "bnd tc_2_1 k w = bnd ?m k ?w"
    by (rule bnd_same_run) (rule tc_2_1_prefix)
  have "step_ok (bnd ?m k)"
    by (intro step_ok_bnd step_ok_send_request data_2_1_ok step_ok_tc_2_1_asserts assms)
  then obtain xs where "stdout (snd (bnd ?m k ?w)) = stdout ?w @ xs"
    unfolding step_ok_def by blast
  then show ?thesis unfolding eq by simp
qed



lemma script_after_tc_2_1:
  "tc_1_1 w0 = (Inr (), wa) \<Longrightarrow> tc_2_1 wa = (Inr (), w) \<Longrightarrow>
     script w0 = bnd tc_3_1 (\<lambda>_.
       py_print (CHR 0x0A # ''--- All tests completed (basic example) ---'')) w"
  unfolding script_def by (simp add: bnd_def [of tc_1_1] bnd_def [of tc_2_1])

subsection \<open>Runs in the concrete worlds\<close>

lemma responses_clean:
  "content created_201 = [] \<or> (\<exists>d. json_result created_201 = Inr d \<and> dumps_error d = None)
     \<or> (\<exists>e. json_result created_201 = Inl e \<and> is_JSONDecodeError e)"
  "content unauthorized_401 = [] \<or> (\<exists>d. json_result unauthorized_401 = Inr d \<and> dumps_error d = None)
     \<or> (\<exists>e. json_result unauthorized_401 = Inl e \<and> is_JSONDecodeError e)"
  "content user_exists_400 = [] \<or> (\<exists>d. json_result user_exists_400 = Inr d \<and> dumps_error d = None)
     \<or> (\<exists>e. json_result user_exists_400 = Inl e \<and> is_JSONDecodeError e)"
  "content empty_400 = [] \<or> (\<exists>d. json_result empty_400 = Inr d \<and> dumps_error d = None)
     \<or> (\<exists>e. json_result empty_400 = Inl e \<and> is_JSONDecodeError e)"
  "content bad_gateway = [] \<or> (\<exists>d. json_result bad_gateway = Inr d \<and> dumps_error d = None)
     \<or> (\<exists>e. json_result bad_gateway = Inl e \<and> is_JSONDecodeError e)"
  by (simp_all add: created_201_def unauthorized_401_def user_exists_400_def empty_400_def
      bad_gateway_def)

lemma user_exists_400_matches:
  "status_code user_exists_400 = 400" "content user_exists_400 \<noteq> []"
  "py_in ''user already exists'' (py_lower (body_text user_exists_400))"
  "py_in ''user already exists'' (py_lower ''User already exists'')"
  by code_simp+

lemma setup_passes:
  "status_code user_exists_400 \<in> {200, 201}
     \<or> status_code user_exists_400 = 400 \<and> content user_exists_400 \<noteq> []
        \<and> py_in ''user already exists'' (py_lower (body_text user_exists_400))"
  "status_code created_201 \<in> {200, 201}
     \<or> status_code created_201 = 400 \<and> content created_201 \<noteq> []
        \<and> py_in ''user already exists'' (py_lower (body_text created_201))"
  using user_exists_400_matches by (simp_all add: created_201_def)

lemma user_exists_400_message:
  "status_code user_exists_400 = 400
   \<and> (content user_exists_400 = []
      \<or> (\<exists>x. json_result user_exists_400 = Inl x \<and> is_JSONDecodeError x)
      \<or> (\<exists>kvs m. json_result user_exists_400 = Inr (PDict kvs)
            \<and> map_of kvs ''message'' = Some (PStr m)
            \<and> (py_in ''phone number'' (py_lower m)
                \<or> py_in ''user already exists'' (py_lower m))))"
proof -
  have "json_result user_exists_400 = Inr (PDict [(''message'', PStr ''User already exists'')])"
    by (simp add: user_exists_400_def)
  moreover have "map_of [(''message'', PStr ''User already exists'')] ''message''
                   = Some (PStr ''User already exists'')"
    by simp
  ultimately show ?thesis using user_exists_400_matches(1,4) by blast
qed

lemma tc_1_1_passes:
  assumes "network w (length (post_calls w))
             \<lparr>req_url = BASE_URL, req_headers = headers_1_1,
              req_data = json_encode None 0
                (data_1_1
                   (9000000000 + (uint (uuid4_src w (uuid4_calls w)) + clock_src w (clock_reads w)) mod 1000000000)
                   (''testuser_'' @ uuid_hex (uuid4_src w (Suc (uuid4_calls w))) @ ''_''
                    @ py_str (clock_src w (Suc (clock_reads w))) @ ''@example.com'')),
              req_timeout = 15\<rparr> = Received r"
    and "content r = [] \<or> (\<exists>d. json_result r = Inr d \<and> dumps_error d = None)
         \<or> (\<exists>e. json_result r = Inl e \<and> is_JSONDecodeError e)"
    and "status_code r = 200 \<or> status_code r = 201 \<or> is_400_user_exists r"
  shows "tc_1_1 w = (Inr (), snd (tc_1_1 w))"
proof -
  let ?w1 = "w\<lparr>stdout := stdout w @ [CHR 0x0A # ''=== Test Case 1.1: User Creation Attempt ===''],
          uuid4_calls := Suc (Suc (uuid4_calls w)), clock_reads := Suc (Suc (clock_reads w))\<rparr>"
  let ?d = "data_1_1
                   (9000000000 + (uint (uuid4_src w (uuid4_calls w)) + clock_src w (clock_reads w)) mod 1000000000)
                   (''testuser_'' @ uuid_hex (uuid4_src w (Suc (uuid4_calls w))) @ ''_''
                    @ py_str (clock_src w (Suc (clock_reads w))) @ ''@example.com'')"
  have n: "network ?w1 (length (post_calls ?w1))
             \<lparr>req_url = BASE_URL, req_headers = headers_1_1,
              req_data = json_encode None 0 ?d, req_timeout = 15\<rparr> = Received r"
    using assms(1) by simp
  have f: "fst (send_request headers_1_1 ?d ?w1) = Inr (Some r)"
    unfolding send_request_received [OF data_1_1_ok n assms(2)] by simp
  have t: "tc_1_1 w = tc_1_1_asserts (Some r) (snd (send_request headers_1_1 ?d ?w1))"
    unfolding tc_1_1_prefix by (rule bnd_run_Inr, rule pair_of_fst, rule f)
  have "fst (tc_1_1 w) = Inr ()"
    unfolding t using assms(3) by (auto simp add: tc_1_1_asserts_run)
  then show ?thesis by (rule pair_of_fst)
qed

lemma tc_2_1_passes:
  assumes "network w (length (post_calls w))
             \<lparr>req_url = BASE_URL, req_headers = headers_2_1,
              req_data = json_encode None 0
                (data_2_1
                   (9000000000 + (uint (uuid4_src w (uuid4_calls w)) + clock_src w (clock_reads w)) mod 1000000000)
                   (''testuser_'' @ uuid_hex (uuid4_src w (Suc (uuid4_calls w))) @ ''_''
                    @ py_str (clock_src w (Suc (clock_reads w))) @ ''@example.com'')),
              req_timeout = 15\<rparr> = Received r"
    and "content r = [] \<or> (\<exists>d. json_result r = Inr d \<and> dumps_error d = None)
         \<or> (\<exists>e. json_result r = Inl e \<and> is_JSONDecodeError e)"
    and "status_code r = 401"
  shows "tc_2_1 w = (Inr (), snd (tc_2_1 w))"
proof -
  let ?w1 = "w\<lparr>stdout := stdout w @ [CHR 0x0A # ''=== Test Case 2.1: Missing roll-number Header ===''],
          uuid4_calls := Suc (Suc (uuid4_calls w)), clock_reads := Suc (Suc (clock_reads w))\<rparr>"
  let ?d = "data_2_1
                   (9000000000 + (uint (uuid4_src w (uuid4_calls w)) + clock_src w (clock_reads w)) mod 1000000000)
                   (''testuser_'' @ uuid_hex (uuid4_src w (Suc (uuid4_calls w))) @ ''_''
                    @ py_str (clock_src w (Suc (clock_reads w))) @ ''@example.com'')"
  have n: "network ?w1 (length (post_calls ?w1))
             \<lparr>req_url = BASE_URL, req_headers = headers_2_1,
              req_data = json_encode None 0 ?d, req_timeout = 15\<rparr> = Received r"
    using assms(1) by simp
  have f: "fst (send_request headers_2_1 ?d ?w1) = Inr (Some r)"
    unfolding send_request_received [OF data_2_1_ok n assms(2)] by simp
  have t: "tc_2_1 w = tc_2_1_asserts (Some r) (snd (send_request headers_2_1 ?d ?w1))"
    unfolding tc_2_1_prefix by (rule bnd_run_Inr, rule pair_of_fst, rule f)
  have "fst (tc_2_1 w) = Inr ()"
    unfolding t using assms(3) by (auto simp add: tc_2_1_asserts_run)
  then show ?thesis by (rule pair_of_fst)
qed

lemma tc_1_1_network: "network (snd (tc_1_1 w)) = network w"
  using step_ok_tc_1_1 unfolding step_ok_def by blast

lemma tc_2_1_network: "network (snd (tc_2_1 w)) = network w"
  using step_ok_tc_2_1 unfolding step_ok_def by blast

lemma tc_1_1_calls_length: "length (post_calls (snd (tc_1_1 w))) = Suc (length (post_calls w))"
  by (simp add: tc_1_1_post_calls)

lemma tc_2_1_calls_length: "length (post_calls (snd (tc_2_1 w))) = Suc (length (post_calls w))"
  by (simp add: tc_2_1_post_calls)

lemma tc_1_1_in_order: "tc_1_1 world_in_order = (Inr (), snd (tc_1_1 world_in_order))"
  by (rule tc_1_1_passes [where r = created_201, OF _ responses_clean(1)])
    (simp_all add: world_in_order_def world0_def created_201_def)

lemma in_order_after_tc_1_1:
  "network (snd (tc_1_1 world_in_order)) = network world_in_order"
  "length (post_calls (snd (tc_1_1 world_in_order))) = 1"
  by (simp_all add: tc_1_1_network tc_1_1_calls_length) (simp add: world_in_order_def world0_def)


lemma tc_2_1_in_order:
  "tc_2_1 (snd (tc_1_1 world_in_order))
     = (Inr (), snd (tc_2_1 (snd (tc_1_1 world_in_order))))"
  by (rule tc_2_1_passes [where r = unauthorized_401, OF _ responses_clean(2)])
    (simp_all add: in_order_after_tc_1_1, simp_all add: world_in_order_def unauthorized_401_def)

lemma in_order_after_tc_2_1:
  "network (snd (tc_2_1 (snd (tc_1_1 world_in_order)))) = network world_in_order"
  "length (post_calls (snd (tc_2_1 (snd (tc_1_1 world_in_order))))) = 2"
  by (simp_all add: tc_2_1_network tc_2_1_calls_length in_order_after_tc_1_1)

subsection \<open>Test Case 1.1 and Test Case 2.1\<close>

lemma outcome_passes:
  assumes "s = Inr (Some r)" and "P r" and "A" and "B r" and "D"
  shows "(A = (\<exists>r. s = Inr (Some r) \<and> P r))
         \<and> (\<forall>r. s = Inr (Some r) \<and> P r \<longrightarrow> B r)
         \<and> (s = Inr None \<or> (\<exists>r. s = Inr (Some r) \<and> \<not> P r) \<longrightarrow> C)
         \<and> D"
  using assms by auto

lemma outcome_fails:
  assumes "s = Inr None \<or> s = Inr (Some r) \<and> \<not> P r" and "\<not> A" and "C" and "D"
  shows "(A = (\<exists>r. s = Inr (Some r) \<and> P r))
         \<and> (\<forall>r. s = Inr (Some r) \<and> P r \<longrightarrow> B r)
         \<and> (s = Inr None \<or> (\<exists>r. s = Inr (Some r) \<and> \<not> P r) \<longrightarrow> C)
         \<and> D"
  using assms by auto

lemma outcome_raises:
  assumes "s = Inl x" and "\<not> A" and "D"
  shows "(A = (\<exists>r. s = Inr (Some r) \<and> P r))
         \<and> (\<forall>r. s = Inr (Some r) \<and> P r \<longrightarrow> B r)
         \<and> (s = Inr None \<or> (\<exists>r. s = Inr (Some r) \<and> \<not> P r) \<longrightarrow> C)
         \<and> D"
  using assms by auto

text \<open>
  Claim C4. Test Case 1.1 prints its heading, generates a phone number \<open>p\<close> and an
  e-mail address \<open>e\<close> and calls \<open>send_request headers_1_1 (data_1_1 p e)\<close>; \<open>sent\<close> is
  that call. Test Case 1.1 ends normally exactly when the call returned a response
  whose status code is 200 or 201, or is 400 with a non-empty body whose text in lower
  case contains \<^verbatim>\<open>user already exists\<close>. Then the matching \<^verbatim>\<open>TC 1.1: PASSED\<close> line
  and the completion line are printed after the report of the request, and the script
  goes on with Test Case 2.1 from the world Test Case 1.1 left: the next line printed
  is the heading of Test Case 2.1. When the call returned \<open>None\<close>, or any other
  response, the script ends with an \<open>AssertionError\<close> in the world the call left:
  nothing more is printed and Test Case 2.1 does not start. In every case Test Case
  1.1 calls \<^verbatim>\<open>requests.post\<close> once, with \<open>headers_1_1\<close> and that body.
\<close>

theorem tc_1_1_pass_iff:
  fixes w :: world
  defines "p \<equiv> 9000000000 + (uint (uuid4_src w (uuid4_calls w)) + clock_src w (clock_reads w)) mod 10 ^ 9"
    and "e \<equiv> ''testuser_'' @ uuid_hex (uuid4_src w (Suc (uuid4_calls w))) @ ''_''
              @ py_str (clock_src w (Suc (clock_reads w))) @ ''@example.com''"
    and "w1 \<equiv> w\<lparr>stdout := stdout w @ [CHR 0x0A # ''=== Test Case 1.1: User Creation Attempt ===''],
                 uuid4_calls := Suc (Suc (uuid4_calls w)),
                 clock_reads := Suc (Suc (clock_reads w))\<rparr>"
  defines "sent \<equiv> send_request headers_1_1 (data_1_1 p e) w1"
  shows
    "((fst (tc_1_1 w) = Inr ()) =
        (\<exists>r. fst sent = Inr (Some r)
            \<and> (status_code r \<in> {200, 201}
                \<or> status_code r = 400 \<and> content r \<noteq> []
                   \<and> py_in ''user already exists'' (py_lower (body_text r)))))
     \<and> (\<forall>r. fst sent = Inr (Some r)
            \<and> (status_code r \<in> {200, 201}
                \<or> status_code r = 400 \<and> content r \<noteq> []
                   \<and> py_in ''user already exists'' (py_lower (body_text r)))
          \<longrightarrow> stdout (snd (tc_1_1 w)) = stdout (snd sent) @
                 [if status_code r \<in> {200, 201}
                  then ''TC 1.1: PASSED (User created successfully - Status 200/201)''
                  else ''TC 1.1: PASSED (User creation failed as expected: User already exists - Status 400)'',
                  ''--- Test Case 1.1 Complete ---'' @ [CHR 0x0A]]
              \<and> script w =
                  bnd tc_2_1 (\<lambda>_. bnd tc_3_1 (\<lambda>_.
                    py_print (CHR 0x0A # ''--- All tests completed (basic example) ---'')))
                    (snd (tc_1_1 w))
              \<and> (\<exists>rest. stdout (snd (script w)) = stdout (snd (tc_1_1 w)) @
                    (CHR 0x0A # ''=== Test Case 2.1: Missing roll-number Header ==='') # rest))
     \<and> (fst sent = Inr None
         \<or> (\<exists>r. fst sent = Inr (Some r)
               \<and> \<not> (status_code r \<in> {200, 201}
                     \<or> status_code r = 400 \<and> content r \<noteq> []
                        \<and> py_in ''user already exists'' (py_lower (body_text r))))
          \<longrightarrow> (\<exists>m. fst (script w) = Inl (AssertionError m)) \<and> snd (script w) = snd sent)
     \<and> post_calls (snd (tc_1_1 w)) = post_calls w @
          [\<lparr>req_url = BASE_URL, req_headers = headers_1_1,
            req_data = json_encode None 0 (data_1_1 p e), req_timeout = 15\<rparr>]"
proof -
  have tc: "tc_1_1 w = bnd (send_request headers_1_1 (data_1_1 p e)) tc_1_1_asserts w1"
    unfolding p_def e_def w1_def by (simp add: tc_1_1_prefix)
  obtain res w2 where run: "sent = (res, w2)" by (cases sent)
  have ok: "dumps_error (data_1_1 p e) = None" unfolding p_def by (simp add: data_1_1_ok)
  have calls: "post_calls (snd (tc_1_1 w)) = post_calls w @
          [\<lparr>req_url = BASE_URL, req_headers = headers_1_1,
            req_data = json_encode None 0 (data_1_1 p e), req_timeout = 15\<rparr>]"
    unfolding p_def e_def by (simp add: tc_1_1_post_calls)
  have rest: "step_ok (bnd tc_3_1 (\<lambda>_.
                py_print (CHR 0x0A # ''--- All tests completed (basic example) ---'')))"
    by (intro step_ok_bnd step_ok_tc_3_1 step_ok_print)
  show ?thesis
  proof (cases res)
    case (Inl x)
    then have "tc_1_1 w = (Inl x, w2)"
      using run unfolding tc sent_def by (simp add: bnd_def)
    then have n: "\<not> fst (tc_1_1 w) = Inr ()" by simp
    have r: "fst sent = Inl x" using run Inl by simp
    show ?thesis by (rule outcome_raises) (fact r, fact n, fact calls)
  next
    case (Inr ro)
    then have t: "tc_1_1 w = tc_1_1_asserts ro w2"
      using run unfolding tc sent_def by (simp add: bnd_def)
    show ?thesis
    proof (cases ro)
      case None
      then have a: "tc_1_1 w = (Inl (AssertionError
             ''TC 1.1 Failed: Request did not get a response. Connection likely failed or timed out.''), w2)"
        unfolding t by (simp add: tc_1_1_asserts_run)
      then have s: "script w = tc_1_1 w" unfolding script_def by (simp add: bnd_def)
      have n: "\<not> fst (tc_1_1 w) = Inr ()" using a by simp
      have r: "fst sent = Inr None" using run Inr None by simp
      have c: "(\<exists>m. fst (script w) = Inl (AssertionError m)) \<and> snd (script w) = snd sent"
        unfolding s a using run by simp
      show ?thesis by (rule outcome_fails) (rule disjI1, fact r, fact n, fact c, fact calls)
    next
      case (Some r)
      show ?thesis
      proof (cases "status_code r \<in> {200, 201}
                \<or> status_code r = 400 \<and> content r \<noteq> []
                   \<and> py_in ''user already exists'' (py_lower (body_text r))")
        case True
        then have a: "tc_1_1 w = (Inr (), w2\<lparr>stdout := stdout w2 @
                 [if status_code r \<in> {200, 201}
                  then ''TC 1.1: PASSED (User created successfully - Status 200/201)''
                  else ''TC 1.1: PASSED (User creation failed as expected: User already exists - Status 400)'',
                  ''--- Test Case 1.1 Complete ---'' @ [CHR 0x0A]]\<rparr>)"
          unfolding t Some by (auto simp: tc_1_1_asserts_run is_400_user_exists_def)
        have s: "script w =
                  bnd tc_2_1 (\<lambda>_. bnd tc_3_1 (\<lambda>_.
                    py_print (CHR 0x0A # ''--- All tests completed (basic example) ---'')))
                    (snd (tc_1_1 w))"
          unfolding script_def using a by (simp add: bnd_def [of tc_1_1])
        have l: "\<exists>rest. stdout (snd (script w)) = stdout (snd (tc_1_1 w)) @
                    (CHR 0x0A # ''=== Test Case 2.1: Missing roll-number Header ==='') # rest"
          unfolding s by (rule tc_2_1_first_line) (rule rest)
        have f: "fst (tc_1_1 w) = Inr ()" using a by simp
        have o: "stdout (snd (tc_1_1 w)) = stdout (snd sent) @
                 [if status_code r \<in> {200, 201}
                  then ''TC 1.1: PASSED (User created successfully - Status 200/201)''
                  else ''TC 1.1: PASSED (User creation failed as expected: User already exists - Status 400)'',
                  ''--- Test Case 1.1 Complete ---'' @ [CHR 0x0A]]"
          using a run by simp
        have r: "fst sent = Inr (Some r)" using run Inr Some by simp
        show ?thesis
          by (rule outcome_passes [where r = r])
            (fact r, fact True, fact f, intro conjI o s l, fact calls)
      next
        case False
        then have "\<exists>m. tc_1_1 w = (Inl (AssertionError m), w2)"
          unfolding t Some by (auto simp: tc_1_1_asserts_run is_400_user_exists_def)
        then obtain m where a: "tc_1_1 w = (Inl (AssertionError m), w2)" ..
        then have s: "script w = tc_1_1 w" unfolding script_def by (simp add: bnd_def)
        have r: "fst sent = Inr (Some r)" using run Inr Some by simp
        have n: "\<not> fst (tc_1_1 w) = Inr ()" using a by simp
        have c: "(\<exists>m. fst (script w) = Inl (AssertionError m)) \<and> snd (script w) = snd sent"
          unfolding s a using run by simp
        show ?thesis
          by (rule outcome_fails [where r = r])
            (rule disjI2, rule conjI, fact r, fact False, fact n, fact c, fact calls)
      qed
    qed
  qed
qed

text \<open>
  The theorem in \<open>world_in_order\<close>, where the first request is answered with a 201;
  in \<open>world0\<close>, where it gets no response; and in a world that answers 502.
\<close>

theorem tc_1_1_pass_iff_witness:
  "fst (tc_1_1 world_in_order) = Inr ()
   \<and> stdout (snd (tc_1_1 world_in_order)) ! 8
       = ''TC 1.1: PASSED (User created successfully - Status 200/201)''
   \<and> (\<exists>rest. stdout (snd (script world_in_order)) = stdout (snd (tc_1_1 world_in_order)) @
          (CHR 0x0A # ''=== Test Case 2.1: Missing roll-number Header ==='') # rest)
   \<and> (\<exists>m. fst (script world0) = Inl (AssertionError m))
   \<and> (\<exists>m. fst (script (world_answering bad_gateway)) = Inl (AssertionError m))
   \<and> length (post_calls (snd (tc_1_1 (world_answering bad_gateway)))) = 1"
proof -
  let ?w1 = "\<lambda>w. w\<lparr>stdout := stdout w @ [CHR 0x0A # ''=== Test Case 1.1: User Creation Attempt ===''],
                 uuid4_calls := Suc (Suc (uuid4_calls w)),
                 clock_reads := Suc (Suc (clock_reads w))\<rparr>"
  let ?d = "\<lambda>w. data_1_1
              (9000000000 + (uint (uuid4_src w (uuid4_calls w)) + clock_src w (clock_reads w)) mod 10 ^ 9)
              (''testuser_'' @ uuid_hex (uuid4_src w (Suc (uuid4_calls w))) @ ''_''
                @ py_str (clock_src w (Suc (clock_reads w))) @ ''@example.com'')"
  let ?sent = "\<lambda>w. send_request headers_1_1 (?d w) (?w1 w)"
  have ok: "dumps_error (?d w) = None" for w using data_1_1_ok by simp
  have n1: "network (?w1 world_in_order) (length (post_calls (?w1 world_in_order)))
           \<lparr>req_url = BASE_URL, req_headers = headers_1_1,
            req_data = json_encode None 0 (?d world_in_order), req_timeout = 15\<rparr>
           = Received created_201"
    by (simp add: world_in_order_def world0_def)
  have c1: "content created_201 = []
         \<or> (\<exists>d. json_result created_201 = Inr d \<and> dumps_error d = None)
         \<or> (\<exists>e. json_result created_201 = Inl e \<and> is_JSONDecodeError e)"
    by (simp add: created_201_def)
  have s1: "fst (?sent world_in_order) = Inr (Some created_201)"
    unfolding send_request_received [OF ok n1 c1] by simp
  have l1: "length (stdout (snd (?sent world_in_order))) = 8"
    unfolding send_request_received_length [OF ok n1 c1]
    by (simp add: world_in_order_def world0_def)
  have p1: "status_code created_201 \<in> {200, 201}
            \<or> status_code created_201 = 400 \<and> content created_201 \<noteq> []
               \<and> py_in ''user already exists'' (py_lower (body_text created_201))"
    by (simp add: created_201_def)
  have s2: "fst (?sent world0) = Inr None"
    by (rule send_request_refused [OF _ ok]) simp
  have c3: "content bad_gateway = []
         \<or> (\<exists>d. json_result bad_gateway = Inr d \<and> dumps_error d = None)
         \<or> (\<exists>e. json_result bad_gateway = Inl e \<and> is_JSONDecodeError e)"
    by (simp add: bad_gateway_def)
  have s3: "fst (?sent (world_answering bad_gateway)) = Inr (Some bad_gateway)"
    by (rule send_request_answering [OF _ ok c3]) simp
  have p3: "\<not> (status_code bad_gateway \<in> {200, 201}
            \<or> status_code bad_gateway = 400 \<and> content bad_gateway \<noteq> []
               \<and> py_in ''user already exists'' (py_lower (body_text bad_gateway)))"
    by (simp add: bad_gateway_def)
  note t1 = tc_1_1_pass_iff [of world_in_order]
  note t2 = tc_1_1_pass_iff [of world0]
  note t3 = tc_1_1_pass_iff [of "world_answering bad_gateway"]
  have a: "fst (tc_1_1 world_in_order) = Inr ()"
    using t1 [THEN conjunct1] s1 p1 by blast
  have b: "stdout (snd (tc_1_1 world_in_order)) = stdout (snd (?sent world_in_order)) @
                 [if status_code created_201 \<in> {200, 201}
                  then ''TC 1.1: PASSED (User created successfully - Status 200/201)''
                  else ''TC 1.1: PASSED (User creation failed as expected: User already exists - Status 400)'',
                  ''--- Test Case 1.1 Complete ---'' @ [CHR 0x0A]]"
    and c: "\<exists>rest. stdout (snd (script world_in_order)) = stdout (snd (tc_1_1 world_in_order)) @
          (CHR 0x0A # ''=== Test Case 2.1: Missing roll-number Header ==='') # rest"
    using t1 [THEN conjunct2, THEN conjunct1, rule_format, of created_201] s1 p1 by blast+
  have b': "stdout (snd (tc_1_1 world_in_order)) ! 8
       = ''TC 1.1: PASSED (User created successfully - Status 200/201)''"
    unfolding b nth_after [OF l1] by (simp add: created_201_def)
  have d: "\<exists>m. fst (script world0) = Inl (AssertionError m)"
    using t2 [THEN conjunct2, THEN conjunct2, THEN conjunct1] s2 by blast
  have e: "(\<exists>m. fst (script (world_answering bad_gateway)) = Inl (AssertionError m))
           \<and> snd (script (world_answering bad_gateway)) = snd (?sent (world_answering bad_gateway))"
    using t3 [THEN conjunct2, THEN conjunct2, THEN conjunct1] s3 p3 by blast
  have f: "length (post_calls (snd (tc_1_1 (world_answering bad_gateway)))) = 1"
    using t3 [THEN conjunct2, THEN conjunct2, THEN conjunct2]
    by (simp add: world_answering_def world0_def)
  from a b' c d e f show ?thesis by blast
qed




section \<open>Test Case 3.1 and the script as a whole\<close>

subsection \<open>The two requests of Test Case 3.1\<close>

lemma tc_3_1_second:
  fixes w :: world
  defines "p \<equiv> 9000000000 + (uint (uuid4_src w (uuid4_calls w)) + clock_src w (clock_reads w)) mod 1000000000"
    and "e1 \<equiv> ''testuser_'' @ uuid_hex (uuid4_src w (Suc (uuid4_calls w))) @ ''_''
               @ py_str (clock_src w (Suc (clock_reads w))) @ ''@example.com''"
    and "e2 \<equiv> ''testuser_'' @ uuid_hex (uuid4_src w (Suc (Suc (uuid4_calls w)))) @ ''_''
               @ py_str (clock_src w (Suc (Suc (clock_reads w)))) @ ''@example.com''"
    and "w1 \<equiv> w\<lparr>stdout := stdout w @
            [CHR 0x0A # ''=== Test Case 3.1: Duplicate phoneNumber ==='',
             CHR 0x0A # ''--- TC 3.1 Setup: Creating a user for phone number duplication ---''],
          uuid4_calls := Suc (Suc (uuid4_calls w)), clock_reads := Suc (Suc (clock_reads w))\<rparr>"
  defines "setup_sent \<equiv> send_request setup_headers (setup_data p e1) w1"
  assumes "fst setup_sent = Inr (Some rs)"
    and "status_code rs \<in> {200, 201}
         \<or> status_code rs = 400 \<and> content rs \<noteq> []
            \<and> py_in ''user already exists'' (py_lower (body_text rs))"
  defines "w2 \<equiv> snd (generate_very_unique_email (snd (tc_3_1_setup_asserts (Some rs) (snd setup_sent))))"
  shows "tc_3_1 w = bnd (send_request headers_3_1 (data_3_1 p e2)) tc_3_1_asserts w2"
    and "post_calls w2 = post_calls w @
           [\<lparr>req_url = BASE_URL, req_headers = setup_headers,
             req_data = json_encode None 0 (setup_data p e1), req_timeout = 15\<rparr>]"
proof -
  let ?ws = "snd setup_sent"
  let ?wa = "snd (tc_3_1_setup_asserts (Some rs) ?ws)"
  have s: "setup_sent = (Inr (Some rs), ?ws)" using assms(6) by (rule pair_of_fst)
  have a: "tc_3_1_setup_asserts (Some rs) ?ws = (Inr (), ?wa)"
    by (rule pair_of_fst) (rule tc_3_1_setup_asserts_passes [OF assms(7)])
  have f1: "uuid4_src ?ws = uuid4_src w" "uuid4_calls ?ws = Suc (Suc (uuid4_calls w))"
    "clock_src ?ws = clock_src w" "clock_reads ?ws = Suc (Suc (clock_reads w))"
    unfolding setup_sent_def by (simp_all add: send_request_frame w1_def)
  have f2: "uuid4_src ?wa = uuid4_src w" "uuid4_calls ?wa = Suc (Suc (uuid4_calls w))"
    "clock_src ?wa = clock_src w" "clock_reads ?wa = Suc (Suc (clock_reads w))"
    by (simp_all add: tc_3_1_setup_asserts_frame f1)
  have g: "generate_very_unique_email ?wa = (Inr e2, w2)"
    unfolding w2_def e2_def by (simp add: generate_very_unique_email_run f2)
  have "tc_3_1 w =
     bnd (send_request setup_headers (setup_data p e1))
       (\<lambda>setup_response.
          bnd (tc_3_1_setup_asserts setup_response) (\<lambda>_.
          bnd generate_very_unique_email (\<lambda>email.
          bnd (send_request headers_3_1 (data_3_1 p email)) tc_3_1_asserts))) w1"
    unfolding p_def e1_def w1_def by (rule tc_3_1_prefix)
  also have "\<dots> = bnd (tc_3_1_setup_asserts (Some rs)) (\<lambda>_.
          bnd generate_very_unique_email (\<lambda>email.
          bnd (send_request headers_3_1 (data_3_1 p email)) tc_3_1_asserts)) ?ws"
    by (rule bnd_run_Inr) (unfold setup_sent_def, rule s [unfolded setup_sent_def])
  also have "\<dots> = bnd generate_very_unique_email (\<lambda>email.
          bnd (send_request headers_3_1 (data_3_1 p email)) tc_3_1_asserts) ?wa"
    by (rule bnd_run_Inr) (rule a)
  also have "\<dots> = bnd (send_request headers_3_1 (data_3_1 p e2)) tc_3_1_asserts w2"
    by (rule bnd_run_Inr) (rule g)
  finally show "tc_3_1 w = bnd (send_request headers_3_1 (data_3_1 p e2)) tc_3_1_asserts w2" .
  have "post_calls w2 = post_calls ?wa"
    unfolding w2_def by (simp add: generate_very_unique_email_run)
  also have "\<dots> = post_calls ?ws" by (rule tc_3_1_setup_asserts_post_calls)
  also have "\<dots> = post_calls w @
           [\<lparr>req_url = BASE_URL, req_headers = setup_headers,
             req_data = json_encode None 0 (setup_data p e1), req_timeout = 15\<rparr>]"
    unfolding setup_sent_def send_request_post_calls p_def
    by (simp add: json_dumps_def setup_data_ok w1_def)
  finally show "post_calls w2 = post_calls w @
           [\<lparr>req_url = BASE_URL, req_headers = setup_headers,
             req_data = json_encode None 0 (setup_data p e1), req_timeout = 15\<rparr>]" .
qed

lemma second_world_network:
  "network (snd (generate_very_unique_email
             (snd (tc_3_1_setup_asserts ro (snd (send_request h d x)))))) = network x"
  by (simp add: generate_very_unique_email_run tc_3_1_setup_asserts_run send_request_frame
      split: option.split)

lemma second_world_calls:
  "dumps_error d = None \<Longrightarrow>
   length (post_calls (snd (generate_very_unique_email
             (snd (tc_3_1_setup_asserts ro (snd (send_request h d x)))))))
     = Suc (length (post_calls x))"
  by (simp add: generate_very_unique_email_run tc_3_1_setup_asserts_post_calls
      send_request_post_calls json_dumps_def)

lemma tc_3_1_answered:
  fixes w :: world
  defines "p \<equiv> 9000000000 + (uint (uuid4_src w (uuid4_calls w)) + clock_src w (clock_reads w)) mod 1000000000"
    and "e1 \<equiv> ''testuser_'' @ uuid_hex (uuid4_src w (Suc (uuid4_calls w))) @ ''_''
               @ py_str (clock_src w (Suc (clock_reads w))) @ ''@example.com''"
    and "e2 \<equiv> ''testuser_'' @ uuid_hex (uuid4_src w (Suc (Suc (uuid4_calls w)))) @ ''_''
               @ py_str (clock_src w (Suc (Suc (clock_reads w)))) @ ''@example.com''"
  assumes "network w (length (post_calls w))
             \<lparr>req_url = BASE_URL, req_headers = setup_headers,
              req_data = json_encode None 0 (setup_data p e1), req_timeout = 15\<rparr> = Received rs"
    and "content rs = [] \<or> (\<exists>d. json_result rs = Inr d \<and> dumps_error d = None)
         \<or> (\<exists>e. json_result rs = Inl e \<and> is_JSONDecodeError e)"
    and "status_code rs \<in> {200, 201}
         \<or> status_code rs = 400 \<and> content rs \<noteq> []
            \<and> py_in ''user already exists'' (py_lower (body_text rs))"
    and "network w (Suc (length (post_calls w)))
             \<lparr>req_url = BASE_URL, req_headers = headers_3_1,
              req_data = json_encode None 0 (data_3_1 p e2), req_timeout = 15\<rparr> = Received r"
    and "content r = [] \<or> (\<exists>d. json_result r = Inr d \<and> dumps_error d = None)
         \<or> (\<exists>e. json_result r = Inl e \<and> is_JSONDecodeError e)"
  shows "fst (tc_3_1 w) = fst (tc_3_1_asserts (Some r) w)"
    and "length (post_calls (snd (tc_3_1 w))) = Suc (Suc (length (post_calls w)))"
    and "fst (send_request setup_headers (setup_data p e1)
           (w\<lparr>stdout := stdout w @
              [CHR 0x0A # ''=== Test Case 3.1: Duplicate phoneNumber ==='',
               CHR 0x0A # ''--- TC 3.1 Setup: Creating a user for phone number duplication ---''],
              uuid4_calls := Suc (Suc (uuid4_calls w)),
              clock_reads := Suc (Suc (clock_reads w))\<rparr>)) = Inr (Some rs)"
    and "fst (send_request headers_3_1 (data_3_1 p e2)
           (snd (generate_very_unique_email (snd (tc_3_1_setup_asserts (Some rs)
              (snd (send_request setup_headers (setup_data p e1)
                 (w\<lparr>stdout := stdout w @
                    [CHR 0x0A # ''=== Test Case 3.1: Duplicate phoneNumber ==='',
                     CHR 0x0A # ''--- TC 3.1 Setup: Creating a user for phone number duplication ---''],
                    uuid4_calls := Suc (Suc (uuid4_calls w)),
                    clock_reads := Suc (Suc (clock_reads w))\<rparr>)))))))) = Inr (Some r)"
proof -
  let ?w1 = "w\<lparr>stdout := stdout w @
            [CHR 0x0A # ''=== Test Case 3.1: Duplicate phoneNumber ==='',
             CHR 0x0A # ''--- TC 3.1 Setup: Creating a user for phone number duplication ---''],
          uuid4_calls := Suc (Suc (uuid4_calls w)), clock_reads := Suc (Suc (clock_reads w))\<rparr>"
  let ?setup_sent = "send_request setup_headers (setup_data p e1) ?w1"
  let ?w2 = "snd (generate_very_unique_email (snd (tc_3_1_setup_asserts (Some rs) (snd ?setup_sent))))"
  have ok1: "dumps_error (setup_data p e1) = None" unfolding p_def by (rule setup_data_ok)
  have ok2: "dumps_error (data_3_1 p e2) = None" unfolding p_def by (rule data_3_1_ok)
  have n1: "network ?w1 (length (post_calls ?w1))
             \<lparr>req_url = BASE_URL, req_headers = setup_headers,
              req_data = json_encode None 0 (setup_data p e1), req_timeout = 15\<rparr> = Received rs"
    using assms(4) by simp
  have s1: "fst ?setup_sent = Inr (Some rs)"
    unfolding send_request_received [OF ok1 n1 assms(5)] by simp
  have n2: "network ?w2 (length (post_calls ?w2))
             \<lparr>req_url = BASE_URL, req_headers = headers_3_1,
              req_data = json_encode None 0 (data_3_1 p e2), req_timeout = 15\<rparr> = Received r"
    unfolding second_world_network second_world_calls [OF ok1] using assms(7) by simp
  have s2: "fst (send_request headers_3_1 (data_3_1 p e2) ?w2) = Inr (Some r)"
    unfolding send_request_received [OF ok2 n2 assms(8)] by simp
  show "fst ?setup_sent = Inr (Some rs)" by (rule s1)
  show "fst (send_request headers_3_1 (data_3_1 p e2) ?w2) = Inr (Some r)" by (rule s2)
  have tc: "tc_3_1 w = bnd (send_request headers_3_1 (data_3_1 p e2)) tc_3_1_asserts ?w2"
    using tc_3_1_second(1) [of w rs, folded p_def e1_def e2_def, OF s1 assms(6)] .
  show "length (post_calls (snd (tc_3_1 w))) = Suc (Suc (length (post_calls w)))"
    unfolding tc bnd_post_calls [of tc_3_1_asserts, OF tc_3_1_asserts_post_calls]
      send_request_post_calls
    using ok2 second_world_calls [OF ok1, of "Some rs" setup_headers ?w1]
    by (simp add: json_dumps_def)
  have "tc_3_1 w = bnd (send_request headers_3_1 (data_3_1 p e2)) tc_3_1_asserts ?w2"
    by (rule tc)
  also have "\<dots> = tc_3_1_asserts (Some r) (snd (send_request headers_3_1 (data_3_1 p e2) ?w2))"
    by (rule bnd_run_Inr, rule pair_of_fst, rule s2)
  finally have "fst (tc_3_1 w)
      = fst (tc_3_1_asserts (Some r) (snd (send_request headers_3_1 (data_3_1 p e2) ?w2)))"
    by (rule arg_cong)
  also have "\<dots> = fst (tc_3_1_asserts (Some r) w)" by (rule tc_3_1_asserts_fst)
  finally show "fst (tc_3_1 w) = fst (tc_3_1_asserts (Some r) w)" .
qed

lemma ten_to_nine: "(10 :: int) ^ 9 = 1000000000"
  by simp

text \<open>
  Claim C3, as the specification states it: the assertions on the second response of
  Test Case 3.1 pass exactly when the response is not \<open>None\<close>, has status code 400 and
  its body message contains \<^verbatim>\<open>phone number\<close> or \<^verbatim>\<open>user already exists\<close>. This fails
  when the second request is answered with a 400 that has an empty body: the script
  reads the message only \<^verbatim>\<open>if response_3_1 and response_3_1.content\<close>, so with no
  content there is no message to look at and the test case passes all the same. Here
  the setup request is answered with a 201 and the second request with that 400.
\<close>

theorem tc_3_1_empty_body_counterexample:
  "fst (tc_3_1 world_then_empty_400) = Inr ()
   \<and> length (post_calls (snd (tc_3_1 world_then_empty_400))) = 2
   \<and> network world_then_empty_400 1 (post_calls (snd (tc_3_1 world_then_empty_400)) ! 1)
       = Received empty_400
   \<and> status_code empty_400 = 400
   \<and> content empty_400 = [] \<and> body_text empty_400 = []
   \<and> \<not> py_in ''phone number'' (py_lower (body_text empty_400))
   \<and> \<not> py_in ''user already exists'' (py_lower (body_text empty_400))"
proof -
  note run = tc_3_1_answered(1,2) [of world_then_empty_400 created_201 empty_400,
      OF _ responses_clean(1) _ _ responses_clean(4)]
  have pre: "network world_then_empty_400 (length (post_calls world_then_empty_400)) c
               = Received created_201"
    "network world_then_empty_400 (Suc (length (post_calls world_then_empty_400))) c
               = Received empty_400"
    "post_calls world_then_empty_400 = []" for c
    by (simp_all add: world_then_empty_400_def world0_def)
  have st: "status_code created_201 \<in> {200, 201}
         \<or> status_code created_201 = 400 \<and> content created_201 \<noteq> []
            \<and> py_in ''user already exists'' (py_lower (body_text created_201))"
    by (simp add: created_201_def)
  have a: "fst (tc_3_1 world_then_empty_400) = Inr ()"
    unfolding run(1) [OF pre(1) st pre(2)]
    by (simp add: tc_3_1_asserts_run empty_400_def)
  have b: "length (post_calls (snd (tc_3_1 world_then_empty_400))) = 2"
    unfolding run(2) [OF pre(1) st pre(2)] by (simp add: pre(3))
  have c: "network world_then_empty_400 1 (post_calls (snd (tc_3_1 world_then_empty_400)) ! 1)
       = Received empty_400"
    by (simp add: world_then_empty_400_def)
  have d: "status_code empty_400 = 400" "content empty_400 = []" "body_text empty_400 = []"
    "\<not> py_in ''phone number'' (py_lower (body_text empty_400))"
    "\<not> py_in ''user already exists'' (py_lower (body_text empty_400))"
    by (simp_all add: empty_400_def py_lower_def)
  show ?thesis by (intro conjI) (fact a b c d)+
qed

text \<open>
  Claim C3, amended. Test Case 3.1 generates the phone number \<open>p\<close> once. When
  the setup request, which carries \<open>p\<close>, returned a response that passes the setup
  assertions, Test Case 3.1 calls \<^verbatim>\<open>requests.post\<close> exactly twice, and the second
  request carries the same \<open>p\<close> with a new e-mail address; \<open>setup_sent\<close> is the
  call of \<open>send_request\<close> for the setup request and \<open>sent\<close> the one for the second. Test Case 3.1 ends normally only if \<open>sent\<close> returned a
  response with status code 400. When \<open>sent\<close> returned \<open>None\<close> or a response with
  another status code, Test Case 3.1 ends with an \<open>AssertionError\<close>, and so does the
  script. When \<open>sent\<close> returned a response with status code 400 whose body is empty,
  or is not valid JSON, or is a JSON object whose \<^verbatim>\<open>message\<close> in lower case contains
  \<^verbatim>\<open>phone number\<close> or \<^verbatim>\<open>user already exists\<close>, Test Case 3.1 ends normally, prints
  \<^verbatim>\<open>TC 3.1: PASSED\<close>, and the script prints its last line and ends normally. (A
  400 whose message contains neither text is left out here. The script guards the
  reading of the message with the truth value of the response, which \<^verbatim>\<open>requests\<close>
  defines as false for a status code of 400, so the message is not read; see
  \<open>tc_3_1_asserts_run\<close>.)
\<close>

theorem tc_3_1_duplicate_phone_checks:
  fixes w :: world
  defines "p \<equiv> 9000000000 + (uint (uuid4_src w (uuid4_calls w)) + clock_src w (clock_reads w)) mod 10 ^ 9"
    and "e1 \<equiv> ''testuser_'' @ uuid_hex (uuid4_src w (Suc (uuid4_calls w))) @ ''_''
               @ py_str (clock_src w (Suc (clock_reads w))) @ ''@example.com''"
    and "e2 \<equiv> ''testuser_'' @ uuid_hex (uuid4_src w (Suc (Suc (uuid4_calls w)))) @ ''_''
               @ py_str (clock_src w (Suc (Suc (clock_reads w)))) @ ''@example.com''"
    and "w1 \<equiv> w\<lparr>stdout := stdout w @
                   [CHR 0x0A # ''=== Test Case 3.1: Duplicate phoneNumber ==='',
                    CHR 0x0A # ''--- TC 3.1 Setup: Creating a user for phone number duplication ---''],
                 uuid4_calls := Suc (Suc (uuid4_calls w)),
                 clock_reads := Suc (Suc (clock_reads w))\<rparr>"
  defines "setup_sent \<equiv> send_request setup_headers (setup_data p e1) w1"
  assumes "fst setup_sent = Inr (Some rs)"
    and "status_code rs \<in> {200, 201}
         \<or> status_code rs = 400 \<and> content rs \<noteq> []
            \<and> py_in ''user already exists'' (py_lower (body_text rs))"
  defines "w2 \<equiv> snd (generate_very_unique_email (snd (tc_3_1_setup_asserts (Some rs) (snd setup_sent))))"
  defines "sent \<equiv> send_request headers_3_1 (data_3_1 p e2) w2"
  shows
    "post_calls (snd (tc_3_1 w)) = post_calls w @
       [\<lparr>req_url = BASE_URL, req_headers = setup_headers,
         req_data = json_encode None 0 (setup_data p e1), req_timeout = 15\<rparr>,
        \<lparr>req_url = BASE_URL, req_headers = headers_3_1,
         req_data = json_encode None 0 (data_3_1 p e2), req_timeout = 15\<rparr>]
     \<and> (\<exists>kvs. setup_data p e1 = PDict kvs \<and> map_of kvs ''phoneNumber'' = Some (PInt p))
     \<and> (\<exists>kvs. data_3_1 p e2 = PDict kvs \<and> map_of kvs ''phoneNumber'' = Some (PInt p))
     \<and> (fst (tc_3_1 w) = Inr () \<longrightarrow> (\<exists>r. fst sent = Inr (Some r) \<and> status_code r = 400))
     \<and> (fst sent = Inr None \<or> (\<exists>r. fst sent = Inr (Some r) \<and> status_code r \<noteq> 400)
          \<longrightarrow> (\<exists>m. fst (tc_3_1 w) = Inl (AssertionError m)) \<and> snd (tc_3_1 w) = snd sent
              \<and> (tc_1_1 w0 = (Inr (), wa) \<and> tc_2_1 wa = (Inr (), w) \<longrightarrow> script w0 = tc_3_1 w))
     \<and> (\<forall>r. fst sent = Inr (Some r) \<and> status_code r = 400
              \<and> (content r = []
                  \<or> (\<exists>x. json_result r = Inl x \<and> is_JSONDecodeError x)
                  \<or> (\<exists>kvs m. json_result r = Inr (PDict kvs)
                        \<and> map_of kvs ''message'' = Some (PStr m)
                        \<and> (py_in ''phone number'' (py_lower m)
                            \<or> py_in ''user already exists'' (py_lower m))))
          \<longrightarrow> fst (tc_3_1 w) = Inr ()
              \<and> stdout (snd (tc_3_1 w)) = stdout (snd sent) @
                  [''TC 3.1: PASSED'', ''--- Test Case 3.1 Complete ---'' @ [CHR 0x0A]]
              \<and> (tc_1_1 w0 = (Inr (), wa) \<and> tc_2_1 wa = (Inr (), w) \<longrightarrow>
                    fst (script w0) = Inr ()
                    \<and> stdout (snd (script w0)) = stdout (snd (tc_3_1 w)) @
                        [CHR 0x0A # ''--- All tests completed (basic example) ---'']))"
proof -
  have p: "p = 9000000000 + (uint (uuid4_src w (uuid4_calls w)) + clock_src w (clock_reads w)) mod 1000000000"
    unfolding p_def by simp
  note second = tc_3_1_second [of w rs, folded p e1_def e2_def w1_def, folded setup_sent_def,
      OF assms(6,7), folded w2_def]
  have tc: "tc_3_1 w = bnd (send_request headers_3_1 (data_3_1 p e2)) tc_3_1_asserts w2"
    by (rule second(1))
  have ok: "dumps_error (data_3_1 p e2) = None" unfolding p by (rule data_3_1_ok)
  have calls: "post_calls (snd (tc_3_1 w)) = post_calls w @
       [\<lparr>req_url = BASE_URL, req_headers = setup_headers,
         req_data = json_encode None 0 (setup_data p e1), req_timeout = 15\<rparr>,
        \<lparr>req_url = BASE_URL, req_headers = headers_3_1,
         req_data = json_encode None 0 (data_3_1 p e2), req_timeout = 15\<rparr>]"
    unfolding tc bnd_post_calls [of tc_3_1_asserts, OF tc_3_1_asserts_post_calls]
      send_request_post_calls second(2)
    using ok by (simp add: json_dumps_def)
  have same1: "\<exists>kvs. setup_data p e1 = PDict kvs \<and> map_of kvs ''phoneNumber'' = Some (PInt p)"
    by (simp add: setup_data_def)
  have same2: "\<exists>kvs. data_3_1 p e2 = PDict kvs \<and> map_of kvs ''phoneNumber'' = Some (PInt p)"
    by (simp add: data_3_1_def)
  obtain res w3 where run: "sent = (res, w3)" by (cases sent)
  have t: "tc_3_1 w = (case res of Inl x \<Rightarrow> (Inl x, w3) | Inr ro \<Rightarrow> tc_3_1_asserts ro w3)"
    unfolding tc using run [unfolded sent_def] by (simp add: bnd_def split: sum.split)
  have stop: "script w0 = tc_3_1 w"
    if "tc_1_1 w0 = (Inr (), wa) \<and> tc_2_1 wa = (Inr (), w)" and "tc_3_1 w = (Inl x, w')" for x w'
    using that(2) script_after_tc_2_1 [of w0 wa w] that(1) by (simp add: bnd_def)
  have go: "script w0 = py_print (CHR 0x0A # ''--- All tests completed (basic example) ---'') w'"
    if "tc_1_1 w0 = (Inr (), wa) \<and> tc_2_1 wa = (Inr (), w)" and "tc_3_1 w = (Inr (), w')" for w'
    using that(2) script_after_tc_2_1 [of w0 wa w] that(1) by (simp add: bnd_def)
  have only: "fst (tc_3_1 w) = Inr () \<longrightarrow> (\<exists>r. fst sent = Inr (Some r) \<and> status_code r = 400)"
    unfolding t run
    by (cases res) (auto simp add: tc_3_1_asserts_run split: option.splits if_splits)
  have fails: "fst sent = Inr None \<or> (\<exists>r. fst sent = Inr (Some r) \<and> status_code r \<noteq> 400)
          \<longrightarrow> (\<exists>m. fst (tc_3_1 w) = Inl (AssertionError m)) \<and> snd (tc_3_1 w) = snd sent
              \<and> (tc_1_1 w0 = (Inr (), wa) \<and> tc_2_1 wa = (Inr (), w) \<longrightarrow> script w0 = tc_3_1 w)"
  proof
    assume "fst sent = Inr None \<or> (\<exists>r. fst sent = Inr (Some r) \<and> status_code r \<noteq> 400)"
    then have "\<exists>m. tc_3_1 w = (Inl (AssertionError m), w3)"
      unfolding t using run by (auto simp add: tc_3_1_asserts_run)
    then obtain m where a: "tc_3_1 w = (Inl (AssertionError m), w3)" ..
    show "(\<exists>m. fst (tc_3_1 w) = Inl (AssertionError m)) \<and> snd (tc_3_1 w) = snd sent
              \<and> (tc_1_1 w0 = (Inr (), wa) \<and> tc_2_1 wa = (Inr (), w) \<longrightarrow> script w0 = tc_3_1 w)"
      using a run stop [OF _ a] by simp
  qed
  have passes: "\<forall>r. fst sent = Inr (Some r) \<and> status_code r = 400
              \<and> (content r = []
                  \<or> (\<exists>x. json_result r = Inl x \<and> is_JSONDecodeError x)
                  \<or> (\<exists>kvs m. json_result r = Inr (PDict kvs)
                        \<and> map_of kvs ''message'' = Some (PStr m)
                        \<and> (py_in ''phone number'' (py_lower m)
                            \<or> py_in ''user already exists'' (py_lower m))))
          \<longrightarrow> fst (tc_3_1 w) = Inr ()
              \<and> stdout (snd (tc_3_1 w)) = stdout (snd sent) @
                  [''TC 3.1: PASSED'', ''--- Test Case 3.1 Complete ---'' @ [CHR 0x0A]]
              \<and> (tc_1_1 w0 = (Inr (), wa) \<and> tc_2_1 wa = (Inr (), w) \<longrightarrow>
                    fst (script w0) = Inr ()
                    \<and> stdout (snd (script w0)) = stdout (snd (tc_3_1 w)) @
                        [CHR 0x0A # ''--- All tests completed (basic example) ---''])"
  proof (intro allI impI, elim conjE)
    fix r
    assume that: "fst sent = Inr (Some r)" "status_code r = 400"
    have a: "tc_3_1 w = (Inr (), w3\<lparr>stdout := stdout w3 @
                  [''TC 3.1: PASSED'', ''--- Test Case 3.1 Complete ---'' @ [CHR 0x0A]]\<rparr>)"
      unfolding t using run that by (simp add: tc_3_1_asserts_run)
    show "fst (tc_3_1 w) = Inr ()
              \<and> stdout (snd (tc_3_1 w)) = stdout (snd sent) @
                  [''TC 3.1: PASSED'', ''--- Test Case 3.1 Complete ---'' @ [CHR 0x0A]]
              \<and> (tc_1_1 w0 = (Inr (), wa) \<and> tc_2_1 wa = (Inr (), w) \<longrightarrow>
                    fst (script w0) = Inr ()
                    \<and> stdout (snd (script w0)) = stdout (snd (tc_3_1 w)) @
                        [CHR 0x0A # ''--- All tests completed (basic example) ---''])"
      using a run go [OF _ a] by (simp add: py_print_def)
  qed
  show ?thesis
    by (intro conjI) (fact calls, fact same1, fact same2, fact only, fact fails, fact passes)
qed

text \<open>
  The theorem in a world that answers every request with the 400 refusal
  \<^verbatim>\<open>{"message": "User already exists"}\<close>: both requests are sent and the test case
  passes. In \<open>world_in_order\<close> the script comes through Test Cases 1.1 and 2.1, both
  requests of Test Case 3.1 get that refusal, and the script ends normally. In a
  world that answers 201 the second response fails the assertion on the status code.
\<close>

theorem tc_3_1_duplicate_phone_checks_witness:
  "fst (tc_3_1 (world_answering user_exists_400)) = Inr ()
   \<and> length (post_calls (snd (tc_3_1 (world_answering user_exists_400)))) = 2
   \<and> tc_1_1 world_in_order = (Inr (), snd (tc_1_1 world_in_order))
   \<and> tc_2_1 (snd (tc_1_1 world_in_order))
       = (Inr (), snd (tc_2_1 (snd (tc_1_1 world_in_order))))
   \<and> fst (script world_in_order) = Inr ()
   \<and> last (stdout (snd (script world_in_order)))
       = CHR 0x0A # ''--- All tests completed (basic example) ---''
   \<and> (\<exists>m. fst (tc_3_1 (world_answering created_201)) = Inl (AssertionError m))"
proof -
  let ?A = "world_answering user_exists_400"
  let ?a = "snd (tc_1_1 world_in_order)"
  let ?B = "snd (tc_2_1 ?a)"
  let ?C = "world_answering created_201"
  have nA: "network ?A n c = Received user_exists_400" for n c
    by (simp add: world_answering_def)
  have nB: "network ?B (length (post_calls ?B)) c = Received user_exists_400"
    "network ?B (Suc (length (post_calls ?B))) c = Received user_exists_400" for c
    by (simp_all add: in_order_after_tc_2_1) (simp_all add: world_in_order_def)
  have nC: "network ?C n c = Received created_201" for n c
    by (simp add: world_answering_def)
  note ansA = tc_3_1_answered(3,4) [of ?A user_exists_400 user_exists_400,
      OF nA responses_clean(3) setup_passes(1) nA responses_clean(3)]
  note ansB = tc_3_1_answered(3,4) [of ?B user_exists_400 user_exists_400,
      OF nB(1) responses_clean(3) setup_passes(1) nB(2) responses_clean(3)]
  note ansC = tc_3_1_answered(3,4) [of ?C created_201 created_201,
      OF nC responses_clean(1) setup_passes(2) nC responses_clean(1)]
  note tA = tc_3_1_duplicate_phone_checks [of ?A user_exists_400 ?A ?A, unfolded ten_to_nine,
      OF ansA(1) setup_passes(1)]
  note tB = tc_3_1_duplicate_phone_checks [of ?B user_exists_400 world_in_order ?a,
      unfolded ten_to_nine, OF ansB(1) setup_passes(1)]
  note tC = tc_3_1_duplicate_phone_checks [of ?C created_201 ?C ?C, unfolded ten_to_nine,
      OF ansC(1) setup_passes(2)]
  note passA = tA [THEN conjunct2, THEN conjunct2, THEN conjunct2, THEN conjunct2,
      THEN conjunct2, rule_format, OF conjI [OF ansA(2) user_exists_400_message]]
  note passB = tB [THEN conjunct2, THEN conjunct2, THEN conjunct2, THEN conjunct2,
      THEN conjunct2, rule_format, OF conjI [OF ansB(2) user_exists_400_message]]
  have a: "fst (tc_3_1 ?A) = Inr ()" by (rule passA [THEN conjunct1])
  have b: "length (post_calls (snd (tc_3_1 ?A))) = 2"
    unfolding tA [THEN conjunct1] by (simp add: world_answering_def world0_def)
  have link: "tc_1_1 world_in_order = (Inr (), ?a) \<and> tc_2_1 ?a = (Inr (), ?B)"
    using tc_1_1_in_order tc_2_1_in_order by (rule conjI)
  note endB = passB [THEN conjunct2, THEN conjunct2, rule_format, OF link]
  have c: "fst (script world_in_order) = Inr ()" by (rule endB [THEN conjunct1])
  have d: "last (stdout (snd (script world_in_order)))
       = CHR 0x0A # ''--- All tests completed (basic example) ---''"
    unfolding endB [THEN conjunct2] by simp
  have "status_code created_201 \<noteq> 400" by (simp add: created_201_def)
  with ansC(2) have "fst (send_request headers_3_1
       (data_3_1
         (9000000000 + (uint (uuid4_src ?C (uuid4_calls ?C)) + clock_src ?C (clock_reads ?C)) mod 1000000000)
         (''testuser_'' @ uuid_hex (uuid4_src ?C (Suc (Suc (uuid4_calls ?C)))) @ ''_''
          @ py_str (clock_src ?C (Suc (Suc (clock_reads ?C)))) @ ''@example.com''))
       (snd (generate_very_unique_email (snd (tc_3_1_setup_asserts (Some created_201)
          (snd (send_request setup_headers
             (setup_data
               (9000000000 + (uint (uuid4_src ?C (uuid4_calls ?C)) + clock_src ?C (clock_reads ?C)) mod 1000000000)
               (''testuser_'' @ uuid_hex (uuid4_src ?C (Suc (uuid4_calls ?C))) @ ''_''
                @ py_str (clock_src ?C (Suc (clock_reads ?C))) @ ''@example.com''))
             (?C\<lparr>stdout := stdout ?C @
                [CHR 0x0A # ''=== Test Case 3.1: Duplicate phoneNumber ==='',
                 CHR 0x0A # ''--- TC 3.1 Setup: Creating a user for phone number duplication ---''],
                uuid4_calls := Suc (Suc (uuid4_calls ?C)),
                clock_reads := Suc (Suc (clock_reads ?C))\<rparr>)))))))) = Inr None
     \<or> (\<exists>r. fst (send_request headers_3_1
       (data_3_1
         (9000000000 + (uint (uuid4_src ?C (uuid4_calls ?C)) + clock_src ?C (clock_reads ?C)) mod 1000000000)
         (''testuser_'' @ uuid_hex (uuid4_src ?C (Suc (Suc (uuid4_calls ?C)))) @ ''_''
          @ py_str (clock_src ?C (Suc (Suc (clock_reads ?C)))) @ ''@example.com''))
       (snd (generate_very_unique_email (snd (tc_3_1_setup_asserts (Some created_201)
          (snd (send_request setup_headers
             (setup_data
               (9000000000 + (uint (uuid4_src ?C (uuid4_calls ?C)) + clock_src ?C (clock_reads ?C)) mod 1000000000)
               (''testuser_'' @ uuid_hex (uuid4_src ?C (Suc (uuid4_calls ?C))) @ ''_''
                @ py_str (clock_src ?C (Suc (clock_reads ?C))) @ ''@example.com''))
             (?C\<lparr>stdout := stdout ?C @
                [CHR 0x0A # ''=== Test Case 3.1: Duplicate phoneNumber ==='',
                 CHR 0x0A # ''--- TC 3.1 Setup: Creating a user for phone number duplication ---''],
                uuid4_calls := Suc (Suc (uuid4_calls ?C)),
                clock_reads := Suc (Suc (clock_reads ?C))\<rparr>)))))))) = Inr (Some r)
          \<and> status_code r \<noteq> 400)"
    by (intro disjI2 exI [of _ created_201] conjI)
  note failC = tC [THEN conjunct2, THEN conjunct2, THEN conjunct2, THEN conjunct2,
      THEN conjunct1, rule_format, OF this]
  have e: "\<exists>m. fst (tc_3_1 ?C) = Inl (AssertionError m)" by (rule failC [THEN conjunct1])
  show ?thesis
    by (intro conjI) (fact a b tc_1_1_in_order tc_2_1_in_order c d e)+
qed

subsection \<open>How the script can end\<close>





end
